theory Spec2Isabelle
  imports Complex_Main
begin

section \<open>Data model (core/models.py)\<close>

text \<open>
  The enumerations of \<^verbatim>\<open>models.py\<close>. Two of them share member names in the
  source (\<^verbatim>\<open>DeviceType.POINTER\<close> and \<^verbatim>\<open>DeviceCapability.POINTER\<close>, and
  likewise \<^verbatim>\<open>KEYBOARD\<close>), so the constructors carry the name of their class.
\<close>

datatype device_type =
  DeviceType_POINTER | DeviceType_KEYBOARD | DeviceType_TOUCH | DeviceType_TABLET
| DeviceType_UNKNOWN

datatype device_capability =
  Cap_POINTER | Cap_KEYBOARD | Cap_TOUCH | Cap_TABLET_TOOL | Cap_TABLET_PAD
| Cap_GESTURE | Cap_SWITCH

datatype grab_mode =
  GrabMode_NONE | GrabMode_POINTER_LOCK | GrabMode_POINTER_CONFINE | GrabMode_KEYBOARD

datatype seat_state = ACTIVE | INACTIVE | SUSPENDED

text \<open>
  \<^verbatim>\<open>Position\<close> holds two Python floats. They are modelled as real numbers: the
  operations involved are one addition and comparisons, and the model stands for the
  finite, non-NaN values.
\<close>

record position =
  pos_x :: real
  pos_y :: real

definition move :: "position \<Rightarrow> real \<Rightarrow> real \<Rightarrow> position" where
  "move p dx dy = \<lparr>pos_x = pos_x p + dx, pos_y = pos_y p + dy\<rparr>"

definition clamp :: "position \<Rightarrow> real \<Rightarrow> real \<Rightarrow> real \<Rightarrow> real \<Rightarrow> position" where
  "clamp p min_x min_y max_x max_y =
     \<lparr>pos_x = max min_x (min max_x (pos_x p)),
      pos_y = max min_y (min max_y (pos_y p))\<rparr>"

record input_device =
  id_d :: string
  name_d :: string
  device_type :: device_type
  capabilities :: "device_capability set"
  vendor_id :: int
  product_id :: int
  sysfs_path :: string
  seat_id :: "string option"
  is_available :: bool

definition is_assigned :: "input_device \<Rightarrow> bool" where
  "is_assigned d = (seat_id d \<noteq> None)"

definition has_capability :: "input_device \<Rightarrow> device_capability \<Rightarrow> bool" where
  "has_capability d cap = (cap \<in> capabilities d)"

text \<open>
  The registry tests \<^verbatim>\<open>device.seat_id\<close> by truth value (\<^verbatim>\<open>if device.seat_id\<close>,
  \<^verbatim>\<open>if not device.seat_id\<close>): \<^verbatim>\<open>None\<close> and the empty string are both false.
\<close>

fun truthy :: "string option \<Rightarrow> bool" where
  "truthy None = False"
| "truthy (Some v) = (v \<noteq> [])"

record cursor =
  position :: position
  visible :: bool
  cursor_theme :: string
  cursor_name :: string
  hotspot_x :: int
  hotspot_y :: int

definition move_to :: "cursor \<Rightarrow> real \<Rightarrow> real \<Rightarrow> cursor" where
  "move_to c x y = c\<lparr>position := \<lparr>pos_x = x, pos_y = y\<rparr>\<rparr>"

definition move_by :: "cursor \<Rightarrow> real \<Rightarrow> real \<Rightarrow> cursor" where
  "move_by c dx dy = c\<lparr>position := move (position c) dx dy\<rparr>"

text \<open>\<^verbatim>\<open>started_at\<close> is the clock reading taken when the grab object is built.\<close>

type_synonym datetime = nat

record grab =
  mode :: grab_mode
  client_id :: string
  surface_id :: "string option"
  started_at :: datetime

definition is_active :: "grab \<Rightarrow> bool" where
  "is_active g = (mode g \<noteq> GrabMode_NONE)"

record focus_state =
  pointer_focus :: "string option"
  keyboard_focus :: "string option"

record seat =
  id_s :: string
  name_s :: string
  state :: seat_state
  cursor :: cursor
  focus :: focus_state
  pointer_grab :: "grab option"
  keyboard_grab :: "grab option"
  pointer_devices :: "string set"
  keyboard_devices :: "string set"

text \<open>
  \<^verbatim>\<open>Seat(name=name)\<close>: every other field takes its default. The identifier is the
  string of a fresh \<^verbatim>\<open>uuid.uuid4()\<close>; the model receives it as an argument.
\<close>

definition new_seat :: "string \<Rightarrow> string \<Rightarrow> seat" where
  "new_seat uuid name =
     \<lparr>id_s = uuid, name_s = name, state = ACTIVE,
      cursor = \<lparr>position = \<lparr>pos_x = 0, pos_y = 0\<rparr>, visible = True,
                cursor_theme = ''default'', cursor_name = ''left_ptr'',
                hotspot_x = 0, hotspot_y = 0\<rparr>,
      focus = \<lparr>pointer_focus = None, keyboard_focus = None\<rparr>,
      pointer_grab = None, keyboard_grab = None,
      pointer_devices = {}, keyboard_devices = {}\<rparr>"

definition is_pointer_grabbed :: "seat \<Rightarrow> bool" where
  "is_pointer_grabbed s =
     (case pointer_grab s of None \<Rightarrow> False | Some g \<Rightarrow> is_active g)"

definition is_keyboard_grabbed :: "seat \<Rightarrow> bool" where
  "is_keyboard_grabbed s =
     (case keyboard_grab s of None \<Rightarrow> False | Some g \<Rightarrow> is_active g)"

definition add_pointer_device :: "string \<Rightarrow> seat \<Rightarrow> seat" where
  "add_pointer_device device_id s = s\<lparr>pointer_devices := insert device_id (pointer_devices s)\<rparr>"

definition add_keyboard_device :: "string \<Rightarrow> seat \<Rightarrow> seat" where
  "add_keyboard_device device_id s =
     s\<lparr>keyboard_devices := insert device_id (keyboard_devices s)\<rparr>"

definition remove_pointer_device :: "string \<Rightarrow> seat \<Rightarrow> seat" where
  "remove_pointer_device device_id s = s\<lparr>pointer_devices := pointer_devices s - {device_id}\<rparr>"

definition remove_keyboard_device :: "string \<Rightarrow> seat \<Rightarrow> seat" where
  "remove_keyboard_device device_id s =
     s\<lparr>keyboard_devices := keyboard_devices s - {device_id}\<rparr>"

definition set_pointer_grab ::
  "string \<Rightarrow> grab_mode \<Rightarrow> string option \<Rightarrow> datetime \<Rightarrow> seat \<Rightarrow> seat" where
  "set_pointer_grab client md surface now s =
     s\<lparr>pointer_grab :=
         Some \<lparr>mode = md, client_id = client, surface_id = surface, started_at = now\<rparr>\<rparr>"

definition seat_release_pointer_grab :: "seat \<Rightarrow> seat" where
  "seat_release_pointer_grab s = s\<lparr>pointer_grab := None\<rparr>"

record display_bounds =
  bounds_x :: int
  bounds_y :: int
  width :: int
  height :: int
  bounds_name :: string

definition default_display_bounds :: display_bounds where
  "default_display_bounds =
     \<lparr>bounds_x = 0, bounds_y = 0, width = 1920, height = 1080, bounds_name = ''default''\<rparr>"

definition contains :: "display_bounds \<Rightarrow> position \<Rightarrow> bool" where
  "contains b p =
     (real_of_int (bounds_x b) \<le> pos_x p \<and> pos_x p < real_of_int (bounds_x b + width b) \<and>
      real_of_int (bounds_y b) \<le> pos_y p \<and> pos_y p < real_of_int (bounds_y b + height b))"


section \<open>Events and listeners (core/seat\_manager.py)\<close>

datatype event_type =
  SEAT_CREATED | SEAT_DESTROYED | SEAT_STATE_CHANGED | DEVICE_ADDED | DEVICE_REMOVED
| DEVICE_ASSIGNED | DEVICE_UNASSIGNED | POINTER_MOTION | POINTER_BUTTON | POINTER_AXIS
| KEYBOARD_KEY | GRAB_STARTED | GRAB_ENDED | FOCUS_CHANGED

text \<open>The values that the registry stores in the open \<^verbatim>\<open>data\<close> dictionary of an event.\<close>

datatype payload =
  PStr string | PFloat real | PInt int | PBool bool
| PSeatState seat_state | PGrabMode grab_mode | PDeviceType device_type

record event =
  event_type :: event_type
  seat_id_e :: "string option"
  device_id_e :: "string option"
  data :: "(string \<times> payload) list"

text \<open>
  A listener is a callback that observes the event. What matters to the registry is
  whether the call returns or raises an \<^verbatim>\<open>Exception\<close>, which is what the handler
  \<^verbatim>\<open>except Exception\<close> of \<^verbatim>\<open>_emit_event\<close> catches; the message of the exception is
  what \<^verbatim>\<open>logger.error\<close> prints. Listeners are observers: they do not call back into
  the registry while an event is being delivered. The signals that end the interpreter
  (\<^verbatim>\<open>KeyboardInterrupt\<close>, \<^verbatim>\<open>SystemExit\<close>), which are not instances of
  \<^verbatim>\<open>Exception\<close> and can arrive at any point of any call, are outside the model.
\<close>

datatype listener_outcome = Returns | Raises string

type_synonym event_callback = "event \<Rightarrow> listener_outcome"

datatype error =
  SeatManagerError | SeatNotFoundError | DeviceNotFoundError | DeviceAlreadyAssignedError


section \<open>The registry (class SeatManager)\<close>

text \<open>
  The first five fields are the attributes of \<^verbatim>\<open>SeatManager\<close>. The last three record
  what the registry did to the outside world: the events handed to \<^verbatim>\<open>_emit_event\<close>,
  the listener calls made (position of the listener in the list, and the event), and the
  messages of the listener failures that were logged.

  Seat and device objects live in the two dictionaries under their key, and the code
  reaches them only through a lookup; a mutation through such a reference is an update
  of the dictionary entry. The informational lines written with \<^verbatim>\<open>logger.info\<close> and
  \<^verbatim>\<open>logger.warning\<close> are not modelled.
\<close>

record seat_manager =
  seats :: "string \<rightharpoonup> seat"
  devices :: "string \<rightharpoonup> input_device"
  event_listeners :: "event_callback list"
  display_bounds :: display_bounds
  default_seat_id :: string
  emitted :: "event list"
  invoked :: "(nat \<times> event) list"
  logged :: "string list"

text \<open>
  An operation returns the exception it raised or its value, together with the registry
  as the call leaves it; a raise hands back the registry as it is at the raise.
\<close>

type_synonym 'a result = "(error + 'a) \<times> seat_manager"

definition update_seat :: "seat_manager \<Rightarrow> string \<Rightarrow> (seat \<Rightarrow> seat) \<Rightarrow> seat_manager" where
  "update_seat m k f =
     (case seats m k of None \<Rightarrow> m | Some s \<Rightarrow> m\<lparr>seats := (seats m)(k \<mapsto> f s)\<rparr>)"

definition update_device ::
  "seat_manager \<Rightarrow> string \<Rightarrow> (input_device \<Rightarrow> input_device) \<Rightarrow> seat_manager" where
  "update_device m k f =
     (case devices m k of None \<Rightarrow> m | Some d \<Rightarrow> m\<lparr>devices := (devices m)(k \<mapsto> f d)\<rparr>)"

definition set_display_bounds :: "seat_manager \<Rightarrow> display_bounds \<Rightarrow> seat_manager" where
  "set_display_bounds m bounds = m\<lparr>display_bounds := bounds\<rparr>"

definition add_event_listener :: "seat_manager \<Rightarrow> event_callback \<Rightarrow> seat_manager" where
  "add_event_listener m callback = m\<lparr>event_listeners := event_listeners m @ [callback]\<rparr>"

definition remove_event_listener :: "seat_manager \<Rightarrow> event_callback \<Rightarrow> seat_manager" where
  "remove_event_listener m callback =
     (if callback \<in> set (event_listeners m)
      then m\<lparr>event_listeners := remove1 callback (event_listeners m)\<rparr> else m)"

text \<open>
  The loop of \<^verbatim>\<open>_emit_event\<close>: \<open>i\<close> is the position of the next listener, the pair is
  the calls made and the failures logged so far.
\<close>

fun emit_loop ::
  "event_callback list \<Rightarrow> nat \<Rightarrow> event \<Rightarrow> (nat \<times> event) list \<times> string list
     \<Rightarrow> (nat \<times> event) list \<times> string list" where
  "emit_loop [] i ev acc = acc"
| "emit_loop (listener # rest) i ev (calls, errs) =
     (case listener ev of
        Returns \<Rightarrow> emit_loop rest (Suc i) ev (calls @ [(i, ev)], errs)
      | Raises e \<Rightarrow> emit_loop rest (Suc i) ev (calls @ [(i, ev)], errs @ [e]))"

definition emit_event :: "seat_manager \<Rightarrow> event \<Rightarrow> seat_manager" where
  "emit_event m ev =
     (case emit_loop (event_listeners m) 0 ev (invoked m, logged m) of
        (calls, errs) \<Rightarrow> m\<lparr>emitted := emitted m @ [ev], invoked := calls, logged := errs\<rparr>)"

subsection \<open>Seat management\<close>

definition create_seat :: "seat_manager \<Rightarrow> string \<Rightarrow> string \<Rightarrow> string \<times> seat_manager" where
  "create_seat m uuid name =
     (let st = new_seat uuid name;
          m1 = m\<lparr>seats := (seats m)(id_s st \<mapsto> st)\<rparr>
      in (id_s st,
          emit_event m1 \<lparr>event_type = SEAT_CREATED, seat_id_e = Some (id_s st),
                         device_id_e = None, data = [(''name'', PStr name)]\<rparr>))"

text \<open>
  \<^verbatim>\<open>SeatManager.__init__\<close>: empty dictionaries, no listener, the default bounds, and
  the default seat created through \<^verbatim>\<open>create_seat\<close>. \<^verbatim>\<open>_default_seat_id\<close> does not exist
  before that call returns (and \<^verbatim>\<open>create_seat\<close> does not read it); the record holds the
  empty string until then.
\<close>

definition seat_manager_init :: "string \<Rightarrow> string \<Rightarrow> seat_manager" where
  "seat_manager_init uuid default_seat_name =
     (case create_seat
             \<lparr>seats = Map.empty, devices = Map.empty, event_listeners = [],
              display_bounds = default_display_bounds, default_seat_id = [],
              emitted = [], invoked = [], logged = []\<rparr> uuid default_seat_name of
        (sid, m) \<Rightarrow> m\<lparr>default_seat_id := sid\<rparr>)"

definition get_seat :: "seat_manager \<Rightarrow> string \<Rightarrow> seat result" where
  "get_seat m sid =
     (case seats m sid of None \<Rightarrow> (Inl SeatNotFoundError, m) | Some s \<Rightarrow> (Inr s, m))"

definition get_device :: "seat_manager \<Rightarrow> string \<Rightarrow> input_device result" where
  "get_device m device_id =
     (case devices m device_id of
        None \<Rightarrow> (Inl DeviceNotFoundError, m) | Some d \<Rightarrow> (Inr d, m))"

text \<open>
  \<^verbatim>\<open>destroy_seat\<close>. The loop over \<^verbatim>\<open>list(seat.pointer_devices) + list(seat.keyboard_devices)\<close>
  clears \<^verbatim>\<open>seat_id\<close> of every member that is a key of \<^verbatim>\<open>_devices\<close>; the iterations
  touch different entries or repeat the same assignment, so their order does not matter.
\<close>

definition destroy_seat :: "seat_manager \<Rightarrow> string \<Rightarrow> unit result" where
  "destroy_seat m sid =
     (case seats m sid of
        None \<Rightarrow> (Inl SeatNotFoundError, m)
      | Some st \<Rightarrow>
          if sid = default_seat_id m then (Inl SeatManagerError, m)
          else
            let members = pointer_devices st \<union> keyboard_devices st;
                m1 = m\<lparr>devices := (\<lambda>k. if k \<in> members
                                         then map_option (\<lambda>d. d\<lparr>seat_id := None\<rparr>) (devices m k)
                                         else devices m k)\<rparr>;
                m2 = m1\<lparr>seats := (seats m1)(sid := None)\<rparr>
            in (Inr (),
                emit_event m2 \<lparr>event_type = SEAT_DESTROYED, seat_id_e = Some sid,
                               device_id_e = None, data = [(''name'', PStr (name_s st))]\<rparr>))"

definition set_seat_state :: "seat_manager \<Rightarrow> string \<Rightarrow> seat_state \<Rightarrow> unit result" where
  "set_seat_state m sid new_state =
     (case get_seat m sid of
        (Inl e, m1) \<Rightarrow> (Inl e, m1)
      | (Inr st, m1) \<Rightarrow>
          let old_state = state st;
              m2 = update_seat m1 sid (\<lambda>s. s\<lparr>state := new_state\<rparr>)
          in (Inr (),
              emit_event m2 \<lparr>event_type = SEAT_STATE_CHANGED, seat_id_e = Some sid,
                             device_id_e = None,
                             data = [(''old_state'', PSeatState old_state),
                                     (''new_state'', PSeatState new_state)]\<rparr>))"

subsection \<open>Device management\<close>

definition register_device :: "seat_manager \<Rightarrow> input_device \<Rightarrow> seat_manager" where
  "register_device m device =
     emit_event (m\<lparr>devices := (devices m)(id_d device \<mapsto> device)\<rparr>)
       \<lparr>event_type = DEVICE_ADDED, seat_id_e = None, device_id_e = Some (id_d device),
        data = [(''name'', PStr (name_d device)), (''type'', PDeviceType (device_type device))]\<rparr>"

definition unassign_device :: "seat_manager \<Rightarrow> string \<Rightarrow> unit result" where
  "unassign_device m device_id =
     (case get_device m device_id of
        (Inl e, m1) \<Rightarrow> (Inl e, m1)
      | (Inr device, m1) \<Rightarrow>
          (case seat_id device of
             None \<Rightarrow> (Inr (), m1)
           | Some sid \<Rightarrow>
               if sid = [] then (Inr (), m1)
               else
                 let m2 = update_seat m1 sid
                            (\<lambda>s. remove_keyboard_device device_id
                                   (remove_pointer_device device_id s));
                     m3 = update_device m2 device_id (\<lambda>d. d\<lparr>seat_id := None\<rparr>)
                 in (Inr (),
                     emit_event m3 \<lparr>event_type = DEVICE_UNASSIGNED, seat_id_e = Some sid,
                                    device_id_e = Some device_id,
                                    data = [(''device_name'', PStr (name_d device))]\<rparr>)))"

definition unregister_device :: "seat_manager \<Rightarrow> string \<Rightarrow> unit result" where
  "unregister_device m device_id =
     (case devices m device_id of
        None \<Rightarrow> (Inl DeviceNotFoundError, m)
      | Some device \<Rightarrow>
          (case (if truthy (seat_id device) then unassign_device m device_id else (Inr (), m)) of
             (Inl e, m1) \<Rightarrow> (Inl e, m1)
           | (Inr _, m1) \<Rightarrow>
               let m2 = m1\<lparr>devices := (devices m1)(device_id := None)\<rparr>
               in (Inr (),
                   emit_event m2 \<lparr>event_type = DEVICE_REMOVED, seat_id_e = None,
                                  device_id_e = Some device_id,
                                  data = [(''name'', PStr (name_d device))]\<rparr>)))"

definition assign_device :: "seat_manager \<Rightarrow> string \<Rightarrow> string \<Rightarrow> bool \<Rightarrow> unit result" where
  "assign_device m device_id sid force =
     (case get_device m device_id of
        (Inl e, m1) \<Rightarrow> (Inl e, m1)
      | (Inr device, m1) \<Rightarrow>
          (case get_seat m1 sid of
             (Inl e, m2) \<Rightarrow> (Inl e, m2)
           | (Inr st, m2) \<Rightarrow>
               if truthy (seat_id device) \<and> \<not> force then (Inl DeviceAlreadyAssignedError, m2)
               else
                 (case (if truthy (seat_id device) then unassign_device m2 device_id
                        else (Inr (), m2)) of
                    (Inl e, m3) \<Rightarrow> (Inl e, m3)
                  | (Inr _, m3) \<Rightarrow>
                      let m4 = update_device m3 device_id (\<lambda>d. d\<lparr>seat_id := Some sid\<rparr>);
                          m5 = (if has_capability device Cap_POINTER
                                then update_seat m4 sid (add_pointer_device device_id) else m4);
                          m6 = (if has_capability device Cap_KEYBOARD
                                then update_seat m5 sid (add_keyboard_device device_id) else m5)
                      in (Inr (),
                          emit_event m6 \<lparr>event_type = DEVICE_ASSIGNED, seat_id_e = Some sid,
                                         device_id_e = Some device_id,
                                         data = [(''device_name'', PStr (name_d device)),
                                                 (''seat_name'', PStr (name_s st))]\<rparr>))))"

definition auto_assign_device :: "seat_manager \<Rightarrow> string \<Rightarrow> string result" where
  "auto_assign_device m device_id =
     (case assign_device m device_id (default_seat_id m) False of
        (Inl e, m1) \<Rightarrow> (Inl e, m1)
      | (Inr _, m1) \<Rightarrow> (Inr (default_seat_id m1), m1))"

subsection \<open>Input event routing\<close>

text \<open>
  \<^verbatim>\<open>InputDevice\<close> and \<^verbatim>\<open>Seat\<close> define neither \<^verbatim>\<open>__bool__\<close> nor \<^verbatim>\<open>__len__\<close>, so
  \<^verbatim>\<open>not device\<close> and \<^verbatim>\<open>not seat\<close> hold exactly when the lookup gave \<^verbatim>\<open>None\<close>.
\<close>

definition route_pointer_motion ::
  "seat_manager \<Rightarrow> string \<Rightarrow> real \<Rightarrow> real \<Rightarrow> string option \<times> seat_manager" where
  "route_pointer_motion m device_id dx dy =
     (case devices m device_id of
        None \<Rightarrow> (None, m)
      | Some device \<Rightarrow>
          (case seat_id device of
             None \<Rightarrow> (None, m)
           | Some sid \<Rightarrow>
               if sid = [] then (None, m)
               else
                 (case seats m sid of
                    None \<Rightarrow> (None, m)
                  | Some st \<Rightarrow>
                      if state st \<noteq> ACTIVE then (None, m)
                      else
                        let b = display_bounds m;
                            m1 = update_seat m sid (\<lambda>s. s\<lparr>cursor := move_by (cursor s) dx dy\<rparr>);
                            m2 = update_seat m1 sid
                                   (\<lambda>s. s\<lparr>cursor := (cursor s)\<lparr>position :=
                                      clamp (position (cursor s))
                                        (real_of_int (bounds_x b)) (real_of_int (bounds_y b))
                                        (real_of_int (bounds_x b + width b - 1))
                                        (real_of_int (bounds_y b + height b - 1))\<rparr>\<rparr>);
                            p = (case seats m2 sid of
                                   None \<Rightarrow> position (cursor st)
                                 | Some s \<Rightarrow> position (cursor s))
                        in (Some (id_s st),
                            emit_event m2
                              \<lparr>event_type = POINTER_MOTION, seat_id_e = Some (id_s st),
                               device_id_e = Some device_id,
                               data = [(''dx'', PFloat dx), (''dy'', PFloat dy),
                                       (''x'', PFloat (pos_x p)), (''y'', PFloat (pos_y p))]\<rparr>))))"

definition route_pointer_button ::
  "seat_manager \<Rightarrow> string \<Rightarrow> int \<Rightarrow> bool \<Rightarrow> string option \<times> seat_manager" where
  "route_pointer_button m device_id button pressed =
     (case devices m device_id of
        None \<Rightarrow> (None, m)
      | Some device \<Rightarrow>
          (case seat_id device of
             None \<Rightarrow> (None, m)
           | Some sid \<Rightarrow>
               if sid = [] then (None, m)
               else
                 (case seats m sid of
                    None \<Rightarrow> (None, m)
                  | Some st \<Rightarrow>
                      if state st \<noteq> ACTIVE then (None, m)
                      else
                        (Some (id_s st),
                         emit_event m
                           \<lparr>event_type = POINTER_BUTTON, seat_id_e = Some (id_s st),
                            device_id_e = Some device_id,
                            data = [(''button'', PInt button), (''pressed'', PBool pressed)]\<rparr>))))"

definition route_keyboard_key ::
  "seat_manager \<Rightarrow> string \<Rightarrow> int \<Rightarrow> bool \<Rightarrow> string option \<times> seat_manager" where
  "route_keyboard_key m device_id key pressed =
     (case devices m device_id of
        None \<Rightarrow> (None, m)
      | Some device \<Rightarrow>
          (case seat_id device of
             None \<Rightarrow> (None, m)
           | Some sid \<Rightarrow>
               if sid = [] then (None, m)
               else
                 (case seats m sid of
                    None \<Rightarrow> (None, m)
                  | Some st \<Rightarrow>
                      if state st \<noteq> ACTIVE then (None, m)
                      else
                        (Some (id_s st),
                         emit_event m
                           \<lparr>event_type = KEYBOARD_KEY, seat_id_e = Some (id_s st),
                            device_id_e = Some device_id,
                            data = [(''key'', PInt key), (''pressed'', PBool pressed)]\<rparr>))))"

subsection \<open>Grab management\<close>

definition request_pointer_grab ::
  "seat_manager \<Rightarrow> string \<Rightarrow> string \<Rightarrow> grab_mode \<Rightarrow> string option \<Rightarrow> datetime \<Rightarrow> bool result"
  where
  "request_pointer_grab m sid client md surface now =
     (case get_seat m sid of
        (Inl e, m1) \<Rightarrow> (Inl e, m1)
      | (Inr st, m1) \<Rightarrow>
          if is_pointer_grabbed st then (Inr False, m1)
          else
            let m2 = update_seat m1 sid (set_pointer_grab client md surface now)
            in (Inr True,
                emit_event m2
                  \<lparr>event_type = GRAB_STARTED, seat_id_e = Some sid, device_id_e = None,
                   data = [(''type'', PStr ''pointer''), (''mode'', PGrabMode md),
                           (''client_id'', PStr client)]\<rparr>))"

definition release_pointer_grab :: "seat_manager \<Rightarrow> string \<Rightarrow> unit result" where
  "release_pointer_grab m sid =
     (case get_seat m sid of
        (Inl e, m1) \<Rightarrow> (Inl e, m1)
      | (Inr st, m1) \<Rightarrow>
          if \<not> is_pointer_grabbed st then (Inr (), m1)
          else
            let m2 = update_seat m1 sid seat_release_pointer_grab
            in (Inr (),
                emit_event m2
                  \<lparr>event_type = GRAB_ENDED, seat_id_e = Some sid, device_id_e = None,
                   data = [(''type'', PStr ''pointer'')]\<rparr>))"

definition get_active_grabs :: "seat_manager \<Rightarrow> (string \<rightharpoonup> grab_mode)" where
  "get_active_grabs m =
     (\<lambda>k. case seats m k of
             None \<Rightarrow> None
           | Some s \<Rightarrow> if is_pointer_grabbed s then map_option mode (pointer_grab s) else None)"


section \<open>Sequences of calls\<close>

text \<open>
  One constructor for each public operation of the registry that changes it or emits an
  event, with the arguments of the call. \<^verbatim>\<open>Create_seat\<close> also carries the identifier
  that \<^verbatim>\<open>uuid4\<close> produces during the call, \<^verbatim>\<open>Request_pointer_grab\<close> the clock reading.
\<close>

datatype operation =
  Create_seat string string
| Destroy_seat string
| Set_seat_state string seat_state
| Register_device input_device
| Unregister_device string
| Assign_device string string bool
| Unassign_device string
| Auto_assign_device string
| Route_pointer_motion string real real
| Route_pointer_button string int bool
| Route_keyboard_key string int bool
| Request_pointer_grab string string grab_mode "string option" datetime
| Release_pointer_grab string
| Set_display_bounds display_bounds
| Add_event_listener event_callback
| Remove_event_listener event_callback

datatype return_value = RNone | RSeatId string | ROptSeatId "string option" | RBool bool

definition returning :: "('a \<Rightarrow> return_value) \<Rightarrow> 'a result \<Rightarrow> return_value result" where
  "returning f r = (case r of (Inl e, m) \<Rightarrow> (Inl e, m) | (Inr v, m) \<Rightarrow> (Inr (f v), m))"

fun perform :: "seat_manager \<Rightarrow> operation \<Rightarrow> return_value result" where
  "perform m (Create_seat uuid name) =
     (case create_seat m uuid name of (sid, m1) \<Rightarrow> (Inr (RSeatId sid), m1))"
| "perform m (Destroy_seat sid) = returning (\<lambda>_. RNone) (destroy_seat m sid)"
| "perform m (Set_seat_state sid st) = returning (\<lambda>_. RNone) (set_seat_state m sid st)"
| "perform m (Register_device device) = (Inr RNone, register_device m device)"
| "perform m (Unregister_device device_id) =
     returning (\<lambda>_. RNone) (unregister_device m device_id)"
| "perform m (Assign_device device_id sid force) =
     returning (\<lambda>_. RNone) (assign_device m device_id sid force)"
| "perform m (Unassign_device device_id) = returning (\<lambda>_. RNone) (unassign_device m device_id)"
| "perform m (Auto_assign_device device_id) = returning RSeatId (auto_assign_device m device_id)"
| "perform m (Route_pointer_motion device_id dx dy) =
     (case route_pointer_motion m device_id dx dy of (r, m1) \<Rightarrow> (Inr (ROptSeatId r), m1))"
| "perform m (Route_pointer_button device_id button pressed) =
     (case route_pointer_button m device_id button pressed of
        (r, m1) \<Rightarrow> (Inr (ROptSeatId r), m1))"
| "perform m (Route_keyboard_key device_id key pressed) =
     (case route_keyboard_key m device_id key pressed of (r, m1) \<Rightarrow> (Inr (ROptSeatId r), m1))"
| "perform m (Request_pointer_grab sid client md surface now) =
     returning RBool (request_pointer_grab m sid client md surface now)"
| "perform m (Release_pointer_grab sid) = returning (\<lambda>_. RNone) (release_pointer_grab m sid)"
| "perform m (Set_display_bounds bounds) = (Inr RNone, set_display_bounds m bounds)"
| "perform m (Add_event_listener callback) = (Inr RNone, add_event_listener m callback)"
| "perform m (Remove_event_listener callback) = (Inr RNone, remove_event_listener m callback)"

text \<open>
  A caller that issues a list of calls one after the other, going on after a call that
  raised: the registry after the last call.
\<close>

fun run :: "seat_manager \<Rightarrow> operation list \<Rightarrow> seat_manager" where
  "run m [] = m"
| "run m (op # ops) = run (snd (perform m op)) ops"


section \<open>Delivery to listeners that edit the list or end the interpreter\<close>

text \<open>
  The registry above keeps listeners that return or raise an \<^verbatim>\<open>Exception\<close>. The loop of
  \<^verbatim>\<open>_emit_event\<close> is modelled a second time for callbacks that can do more: before it
  ends, a callback may pass callbacks to \<^verbatim>\<open>remove_event_listener\<close> (given by their
  identity, a number), and it may end by raising outside \<^verbatim>\<open>Exception\<close>
  (\<^verbatim>\<open>KeyboardInterrupt\<close>, \<^verbatim>\<open>SystemExit\<close>), which \<^verbatim>\<open>except Exception\<close> does not
  catch. Calls of other registry operations from inside a callback, and callbacks that
  register callbacks, are not modelled.
\<close>

datatype raw_outcome = Raw_returns | Raw_raises string | Raw_raises_base string

record raw_listener =
  raw_id :: nat
  removes :: "event \<Rightarrow> nat list"
  ends :: "event \<Rightarrow> raw_outcome"

text \<open>\<^verbatim>\<open>list.remove\<close> deletes the first equal element; the guard \<^verbatim>\<open>callback in\<close> makes the
  call a no-op when there is none.\<close>

fun remove_listener :: "nat \<Rightarrow> raw_listener list \<Rightarrow> raw_listener list" where
  "remove_listener k [] = []"
| "remove_listener k (l # ls) = (if raw_id l = k then ls else l # remove_listener k ls)"

definition after_call :: "raw_listener \<Rightarrow> event \<Rightarrow> raw_listener list \<Rightarrow> raw_listener list" where
  "after_call l ev ls = fold remove_listener (removes l ev) ls"

datatype delivery = Completed | Propagated string

text \<open>
  \<^verbatim>\<open>for listener in self._event_listeners\<close> walks the live list by position: each step
  reads the element at position \<open>i\<close> of the list as it is then, and the loop ends when
  \<open>i\<close> reaches the current length. The result is how the call ended, the list it leaves,
  the calls made (identity of the callback, event) and the failures logged.
\<close>

function raw_emit_loop ::
  "raw_listener list \<Rightarrow> nat \<Rightarrow> event \<Rightarrow> (nat \<times> event) list \<times> string list
     \<Rightarrow> delivery \<times> raw_listener list \<times> (nat \<times> event) list \<times> string list" where
  "raw_emit_loop ls i ev (calls, errs) =
     (if i < length ls
      then (case ends (ls ! i) ev of
              Raw_returns \<Rightarrow>
                raw_emit_loop (after_call (ls ! i) ev ls) (Suc i) ev
                  (calls @ [(raw_id (ls ! i), ev)], errs)
            | Raw_raises e \<Rightarrow>
                raw_emit_loop (after_call (ls ! i) ev ls) (Suc i) ev
                  (calls @ [(raw_id (ls ! i), ev)], errs @ [e])
            | Raw_raises_base e \<Rightarrow>
                (Propagated e, after_call (ls ! i) ev ls,
                 calls @ [(raw_id (ls ! i), ev)], errs))
      else (Completed, ls, calls, errs))"
  by pat_completeness auto
termination
proof (relation "measure (\<lambda>(ls, i, ev, acc). length ls - i)")
  have one: "length (remove_listener k xs) \<le> length xs" for k xs
    by (induction xs) auto
  have many: "length (fold remove_listener ks xs) \<le> length xs" for ks xs
  proof (induction ks arbitrary: xs)
    case Nil
    then show ?case by simp
  next
    case (Cons k ks)
    have "length (fold remove_listener ks (remove_listener k xs)) \<le> length (remove_listener k xs)"
      by (rule Cons.IH)
    also have "\<dots> \<le> length xs" by (rule one)
    finally show ?case by simp
  qed
  have shorter: "length (after_call l ev xs) - Suc i < length xs - i" if "i < length xs"
    for l ev xs i
    using that many [of "removes l ev" xs] by (simp add: after_call_def)
  show "wf (measure (\<lambda>(ls, i, ev, acc). length ls - i))" by simp
  show "\<And>ls i ev calls errs. i < length ls \<Longrightarrow>
          ((after_call (ls ! i) ev ls, Suc i, ev, calls @ [(raw_id (ls ! i), ev)], errs),
           ls, i, ev, calls, errs) \<in> measure (\<lambda>(ls, i, ev, acc). length ls - i)"
    by (simp add: shorter)
  show "\<And>ls i ev calls errs e. i < length ls \<Longrightarrow>
          ((after_call (ls ! i) ev ls, Suc i, ev, calls @ [(raw_id (ls ! i), ev)],
            errs @ [e]),
           ls, i, ev, calls, errs) \<in> measure (\<lambda>(ls, i, ev, acc). length ls - i)"
    by (simp add: shorter)
qed

declare raw_emit_loop.simps [simp del]




section \<open>Derived notions\<close>

text \<open>
  The identifier stored in the seat object under each key, and the statement that every
  seat object is stored under its own identifier.
\<close>

definition seat_ids :: "seat_manager \<Rightarrow> (string \<rightharpoonup> string)" where
  "seat_ids m = (\<lambda>k. map_option id_s (seats m k))"

definition keys_are_ids :: "seat_manager \<Rightarrow> bool" where
  "keys_are_ids m = (\<forall>k st. seats m k = Some st \<longrightarrow> id_s st = k)"

text \<open>
  The position that \<^verbatim>\<open>route_pointer_motion\<close> computes for a cursor (moved by the
  delta, then clamped), the cursor position of the seat stored under a key, and names
  for the four bounds that the code passes to \<^verbatim>\<open>clamp\<close>.
\<close>

definition clamped_target :: "display_bounds \<Rightarrow> position \<Rightarrow> real \<Rightarrow> real \<Rightarrow> position" where
  "clamped_target b p dx dy =
     clamp (move p dx dy)
       (real_of_int (bounds_x b)) (real_of_int (bounds_y b))
       (real_of_int (bounds_x b + width b - 1)) (real_of_int (bounds_y b + height b - 1))"

definition cursor_position :: "seat_manager \<Rightarrow> string \<Rightarrow> position option" where
  "cursor_position m k = map_option (\<lambda>s. position (cursor s)) (seats m k)"

definition clamp_min_x :: "display_bounds \<Rightarrow> real" where
  "clamp_min_x b = real_of_int (bounds_x b)"

definition clamp_max_x :: "display_bounds \<Rightarrow> real" where
  "clamp_max_x b = real_of_int (bounds_x b + width b - 1)"

definition clamp_min_y :: "display_bounds \<Rightarrow> real" where
  "clamp_min_y b = real_of_int (bounds_y b)"

definition clamp_max_y :: "display_bounds \<Rightarrow> real" where
  "clamp_max_y b = real_of_int (bounds_y b + height b - 1)"

text \<open>
  Delivery of events. \<open>deliveries n evs\<close> is the list of listener calls when each event
  of \<open>evs\<close> in turn is handed to \<open>n\<close> listeners in list order; \<open>failures ls ev\<close> is
  the messages of the listeners of \<open>ls\<close> that raise on \<open>ev\<close>, in list order.
  \<open>delivered_to_all m m'\<close> says that \<open>m'\<close> extends the event history of \<open>m\<close> and
  that every event added was handed to every listener of \<open>m\<close>, in registration order.
  \<open>without_listeners\<close> forgets the listeners and what was recorded about them.
\<close>

definition deliveries :: "nat \<Rightarrow> event list \<Rightarrow> (nat \<times> event) list" where
  "deliveries n evs = concat (map (\<lambda>ev. map (\<lambda>i. (i, ev)) [0..<n]) evs)"


definition without_listeners :: "seat_manager \<Rightarrow> seat_manager" where
  "without_listeners m = m\<lparr>event_listeners := [], invoked := [], logged := []\<rparr>"

definition delivered_to_all :: "seat_manager \<Rightarrow> seat_manager \<Rightarrow> bool" where
  "delivered_to_all m m' =
     (take (length (emitted m)) (emitted m') = emitted m
      \<and> invoked m' =
          invoked m @ deliveries (length (event_listeners m))
                        (drop (length (emitted m)) (emitted m')))"

definition rounds_kept :: "seat_manager \<Rightarrow> seat_manager \<Rightarrow> bool" where
  "rounds_kept m m' = (event_listeners m' = event_listeners m \<and> delivered_to_all m m')"




definition emitted_types :: "seat_manager \<Rightarrow> event_type list" where
  "emitted_types m = map event_type (emitted m)"

text \<open>
  The uniqueness argument. \<open>members\<close> is the union of the two device sets of a seat.
  \<open>assignments_agree\<close> says that no seat is stored under the empty key and that every
  member of a seat is a registered device whose \<^verbatim>\<open>seat_id\<close> is the key of that seat.
  \<open>unheld m d\<close> says that no seat has \<open>d\<close> as a member. A call is \<open>admissible\<close> when
  the identifier drawn for \<^verbatim>\<open>create_seat\<close> is not empty (a rendered UUID never is) and
  \<^verbatim>\<open>register_device\<close> is not given an identifier that some seat holds.
\<close>

definition members :: "seat \<Rightarrow> string set" where
  "members st = pointer_devices st \<union> keyboard_devices st"

definition assignments_agree :: "seat_manager \<Rightarrow> bool" where
  "assignments_agree m =
     (\<forall>k st. seats m k = Some st \<longrightarrow>
        k \<noteq> [] \<and> (\<forall>d \<in> members st. \<exists>dev. devices m d = Some dev \<and> seat_id dev = Some k))"

definition unheld :: "seat_manager \<Rightarrow> string \<Rightarrow> bool" where
  "unheld m d = (\<forall>k st. seats m k = Some st \<longrightarrow> d \<notin> members st)"

fun admissible :: "seat_manager \<Rightarrow> operation \<Rightarrow> bool" where
  "admissible m (Create_seat uuid name) = (uuid \<noteq> [])"
| "admissible m (Register_device device) = unheld m (id_d device)"
| "admissible m _ = True"

fun admissible_run :: "seat_manager \<Rightarrow> operation list \<Rightarrow> bool" where
  "admissible_run m [] = True"
| "admissible_run m (op # ops) = (admissible m op \<and> admissible_run (snd (perform m op)) ops)"


section \<open>Example objects\<close>

text \<open>
  A registry as the constructor leaves it and a pointer device as the unit tests build
  it; the concrete instances below are stated on them.
\<close>

definition example_mouse :: input_device where
  "example_mouse =
     \<lparr>id_d = ''mouse1'', name_d = ''Mouse 1'', device_type = DeviceType_POINTER,
      capabilities = {Cap_POINTER}, vendor_id = 0, product_id = 0, sysfs_path = [],
      seat_id = None, is_available = True\<rparr>"

definition example_manager :: seat_manager where
  "example_manager = seat_manager_init ''uuid-seat0'' ''seat0''"

definition example_assigned :: seat_manager where
  "example_assigned =
     run (seat_manager_init ''uuid-seat0'' ''seat0'')
       [Register_device example_mouse, Assign_device ''mouse1'' ''uuid-seat0'' False]"

definition example_reregistered :: seat_manager where
  "example_reregistered =
     run (seat_manager_init ''uuid-seat0'' ''seat0'')
       [Create_seat ''uuid-aux'' ''aux'',
        Register_device example_mouse,
        Assign_device ''mouse1'' ''uuid-seat0'' False,
        Register_device example_mouse,
        Assign_device ''mouse1'' ''uuid-aux'' False]"



definition example_event :: event where
  "example_event =
     \<lparr>event_type = GRAB_ENDED, seat_id_e = Some ''uuid-seat0'', device_id_e = None,
      data = [(''type'', PStr ''pointer'')]\<rparr>"




definition raw_quiet :: "nat \<Rightarrow> raw_listener" where
  "raw_quiet k = \<lparr>raw_id = k, removes = (\<lambda>ev. []), ends = (\<lambda>ev. Raw_returns)\<rparr>"

definition raw_leaving :: raw_listener where
  "raw_leaving = \<lparr>raw_id = 0, removes = (\<lambda>ev. [0]), ends = (\<lambda>ev. Raw_returns)\<rparr>"



section \<open>Properties\<close>

subsection \<open>Field lemmas\<close>

lemma emit_event_fields [simp]:
  "seats (emit_event m ev) = seats m"
  "devices (emit_event m ev) = devices m"
  "event_listeners (emit_event m ev) = event_listeners m"
  "display_bounds (emit_event m ev) = display_bounds m"
  "default_seat_id (emit_event m ev) = default_seat_id m"
  "emitted (emit_event m ev) = emitted m @ [ev]"
  by (simp_all add: emit_event_def split: prod.splits)

lemma update_seat_fields [simp]:
  "devices (update_seat m k f) = devices m"
  "event_listeners (update_seat m k f) = event_listeners m"
  "display_bounds (update_seat m k f) = display_bounds m"
  "default_seat_id (update_seat m k f) = default_seat_id m"
  "emitted (update_seat m k f) = emitted m"
  "invoked (update_seat m k f) = invoked m"
  "logged (update_seat m k f) = logged m"
  "seats (update_seat m k f) = (case seats m k of None \<Rightarrow> seats m | Some s \<Rightarrow> (seats m)(k \<mapsto> f s))"
  by (simp_all add: update_seat_def split: option.splits)

lemma update_device_fields [simp]:
  "seats (update_device m k f) = seats m"
  "event_listeners (update_device m k f) = event_listeners m"
  "display_bounds (update_device m k f) = display_bounds m"
  "default_seat_id (update_device m k f) = default_seat_id m"
  "emitted (update_device m k f) = emitted m"
  "invoked (update_device m k f) = invoked m"
  "logged (update_device m k f) = logged m"
  "devices (update_device m k f) = (case devices m k of None \<Rightarrow> devices m | Some d \<Rightarrow> (devices m)(k \<mapsto> f d))"
  by (simp_all add: update_device_def split: option.splits)

subsection \<open>Unassigning a device\<close>

lemma unassign_device_unknown:
  "devices m d = None \<Longrightarrow> unassign_device m d = (Inl DeviceNotFoundError, m)"
  by (simp add: unassign_device_def get_device_def)

lemma unassign_device_known:
  "devices m d = Some dev \<Longrightarrow> fst (unassign_device m d) = Inr ()"
  by (simp add: unassign_device_def get_device_def Let_def split: option.splits)

lemma unassign_device_unassigned:
  "devices m d = Some dev \<Longrightarrow> \<not> truthy (seat_id dev) \<Longrightarrow> unassign_device m d = (Inr (), m)"
  by (cases "seat_id dev") (simp_all add: unassign_device_def get_device_def)

lemma unassign_device_clears:
  "devices m d = Some dev \<Longrightarrow>
     \<exists>dev'. devices (snd (unassign_device m d)) d = Some dev' \<and> \<not> truthy (seat_id dev')"
  by (cases "seat_id dev") (auto simp add: unassign_device_def get_device_def Let_def)

text \<open>
  Claim C8. \<^verbatim>\<open>unassign_device\<close> on a registered device whose \<^verbatim>\<open>seat_id\<close> is
  false (\<^verbatim>\<open>None\<close> or empty) returns normally and leaves the registry, with the record of
  the events emitted, exactly as it was; so does the second of two calls in a row on a
  registered device, whatever the first one did. The call raises only
  \<^verbatim>\<open>DeviceNotFoundError\<close>, and exactly when the identifier is not registered.
\<close>

theorem unassign_device_noop:
  "(devices m d = Some dev \<and> \<not> truthy (seat_id dev) \<longrightarrow> unassign_device m d = (Inr (), m))
   \<and> (devices m d = Some dev \<longrightarrow>
        unassign_device (snd (unassign_device m d)) d = (Inr (), snd (unassign_device m d)))
   \<and> (fst (unassign_device m d) = Inl e \<longleftrightarrow> e = DeviceNotFoundError \<and> devices m d = None)"
proof (intro conjI impI)
  assume "devices m d = Some dev \<and> \<not> truthy (seat_id dev)"
  then show "unassign_device m d = (Inr (), m)" by (simp add: unassign_device_unassigned)
next
  assume a: "devices m d = Some dev"
  from unassign_device_clears [OF a] obtain dev' where
    "devices (snd (unassign_device m d)) d = Some dev'" "\<not> truthy (seat_id dev')" by blast
  then show "unassign_device (snd (unassign_device m d)) d = (Inr (), snd (unassign_device m d))"
    by (rule unassign_device_unassigned)
next
  show "fst (unassign_device m d) = Inl e \<longleftrightarrow> e = DeviceNotFoundError \<and> devices m d = None"
  proof (cases "devices m d")
    case None
    then show ?thesis by (auto simp add: unassign_device_unknown)
  next
    case (Some dv)
    then show ?thesis using unassign_device_known [OF Some] by simp
  qed
qed


subsection \<open>Pointer grabs\<close>

lemma request_pointer_grab_denied:
  "seats m k = Some st \<Longrightarrow> is_pointer_grabbed st \<Longrightarrow>
     request_pointer_grab m k c md sf now = (Inr False, m)"
  by (simp add: request_pointer_grab_def get_seat_def)

lemma request_pointer_grab_granted:
  "seats m k = Some st \<Longrightarrow> \<not> is_pointer_grabbed st \<Longrightarrow>
     request_pointer_grab m k c md sf now =
       (Inr True,
        emit_event (m\<lparr>seats := (seats m)(k \<mapsto> set_pointer_grab c md sf now st)\<rparr>)
          \<lparr>event_type = GRAB_STARTED, seat_id_e = Some k, device_id_e = None,
           data = [(''type'', PStr ''pointer''), (''mode'', PGrabMode md),
                   (''client_id'', PStr c)]\<rparr>)"
  by (simp add: request_pointer_grab_def get_seat_def update_seat_def)

lemma release_pointer_grab_not_grabbed:
  "seats m k = Some st \<Longrightarrow> \<not> is_pointer_grabbed st \<Longrightarrow>
     release_pointer_grab m k = (Inr (), m)"
  by (simp add: release_pointer_grab_def get_seat_def)

text \<open>
  Claim C3. On a seat whose pointer is grabbed, \<^verbatim>\<open>request_pointer_grab\<close> returns
  \<^verbatim>\<open>False\<close> and the registry is unchanged: the stored grab keeps its client, mode and
  surface, and no event is emitted. On a seat whose pointer is not grabbed it returns
  \<^verbatim>\<open>True\<close>, stores a grab with the given mode, client and surface on that seat and
  emits one \<^verbatim>\<open>GRAB_STARTED\<close> event.
\<close>

theorem request_pointer_grab_contract:
  "(seats m k = Some st \<and> is_pointer_grabbed st \<longrightarrow>
      request_pointer_grab m k c md sf now = (Inr False, m))
   \<and> (seats m k = Some st \<and> \<not> is_pointer_grabbed st \<longrightarrow>
      (\<exists>m'. request_pointer_grab m k c md sf now = (Inr True, m')
         \<and> seats m' = (seats m)(k \<mapsto> st\<lparr>pointer_grab :=
               Some \<lparr>mode = md, client_id = c, surface_id = sf, started_at = now\<rparr>\<rparr>)
         \<and> devices m' = devices m
         \<and> emitted m' = emitted m @
             [\<lparr>event_type = GRAB_STARTED, seat_id_e = Some k, device_id_e = None,
               data = [(''type'', PStr ''pointer''), (''mode'', PGrabMode md),
                       (''client_id'', PStr c)]\<rparr>]))"
  by (simp add: request_pointer_grab_denied request_pointer_grab_granted set_pointer_grab_def)

text \<open>
  Claim C10. With \<^verbatim>\<open>mode = GrabMode.NONE\<close> on a seat that is not grabbed, the request
  returns \<^verbatim>\<open>True\<close>, stores a grab that is not active and emits \<^verbatim>\<open>GRAB_STARTED\<close>;
  \<^verbatim>\<open>is_pointer_grabbed\<close> stays false, a further request on the seat is granted again,
  and \<^verbatim>\<open>release_pointer_grab\<close> returns without touching the registry, so the inactive
  grab stays stored.
\<close>

theorem mode_none_grab_is_inactive:
  assumes "seats m k = Some st" and "\<not> is_pointer_grabbed st"
  shows "\<exists>m1 st1 g ev.
           request_pointer_grab m k c GrabMode_NONE sf now = (Inr True, m1)
         \<and> seats m1 k = Some st1 \<and> pointer_grab st1 = Some g
         \<and> mode g = GrabMode_NONE \<and> \<not> is_active g
         \<and> emitted m1 = emitted m @ [ev] \<and> event_type ev = GRAB_STARTED
         \<and> \<not> is_pointer_grabbed st1
         \<and> fst (request_pointer_grab m1 k c2 md2 sf2 now2) = Inr True
         \<and> release_pointer_grab m1 k = (Inr (), m1)"
proof -
  let ?st1 = "set_pointer_grab c GrabMode_NONE sf now st"
  let ?ev = "\<lparr>event_type = GRAB_STARTED, seat_id_e = Some k, device_id_e = None,
               data = [(''type'', PStr ''pointer''), (''mode'', PGrabMode GrabMode_NONE),
                       (''client_id'', PStr c)]\<rparr>"
  let ?m1 = "emit_event (m\<lparr>seats := (seats m)(k \<mapsto> ?st1)\<rparr>) ?ev"
  have req: "request_pointer_grab m k c GrabMode_NONE sf now = (Inr True, ?m1)"
    using assms by (rule request_pointer_grab_granted)
  have st1: "seats ?m1 k = Some ?st1" by simp
  have free: "\<not> is_pointer_grabbed ?st1"
    by (simp add: is_pointer_grabbed_def set_pointer_grab_def is_active_def)
  have again: "fst (request_pointer_grab ?m1 k c2 md2 sf2 now2) = Inr True"
    by (simp add: request_pointer_grab_granted [OF st1 free])
  have rel: "release_pointer_grab ?m1 k = (Inr (), ?m1)"
    using st1 free by (rule release_pointer_grab_not_grabbed)
  have g: "pointer_grab ?st1 =
             Some \<lparr>mode = GrabMode_NONE, client_id = c, surface_id = sf, started_at = now\<rparr>"
    by (simp add: set_pointer_grab_def)
  show ?thesis
    using req st1 g free again rel by (simp add: is_active_def)
qed

text \<open>
  Claim C2. \<^verbatim>\<open>request_pointer_grab\<close> on seat \<open>A\<close> leaves the entry of every other
  seat identifier \<open>B\<close> as it was: the whole seat object, hence its
  \<^verbatim>\<open>is_pointer_grabbed\<close>, its cursor and both device sets. This holds for each outcome
  of the call (granted, denied, or \<open>A\<close> unknown).
\<close>

theorem request_pointer_grab_frame:
  "B \<noteq> A \<Longrightarrow> seats (snd (request_pointer_grab m A c md sf now)) B = seats m B"
  by (simp add: request_pointer_grab_def get_seat_def update_seat_def Let_def
           split: option.splits)


subsection \<open>Calls that raise\<close>

lemma destroy_seat_fails:
  "fst (destroy_seat m k) = Inl e \<Longrightarrow> snd (destroy_seat m k) = m"
  by (simp add: destroy_seat_def Let_def split: option.splits if_splits)

lemma set_seat_state_fails:
  "fst (set_seat_state m k st) = Inl e \<Longrightarrow> snd (set_seat_state m k st) = m"
  by (simp add: set_seat_state_def get_seat_def Let_def split: option.splits)

lemma unassign_device_fails:
  "fst (unassign_device m d) = Inl e \<Longrightarrow> snd (unassign_device m d) = m"
  by (simp add: unassign_device_def get_device_def Let_def split: option.splits if_splits)

lemma unassign_device_result:
  "devices m d = Some dev \<Longrightarrow> unassign_device m d = (Inr (), snd (unassign_device m d))"
  using unassign_device_known [of m d dev] by (cases "unassign_device m d") simp

lemma unregister_device_fails:
  assumes fails: "fst (unregister_device m d) = Inl e"
  shows "snd (unregister_device m d) = m"
proof (cases "devices m d")
  case None
  then show ?thesis by (simp add: unregister_device_def)
next
  case (Some dev)
  have False
    using fails Some unassign_device_result [OF Some]
    by (cases "truthy (seat_id dev)")
       (simp_all add: unregister_device_def Let_def split: prod.splits sum.splits)
  then show ?thesis ..
qed

lemma assign_device_fails:
  assumes fails: "fst (assign_device m d k force) = Inl e"
  shows "snd (assign_device m d k force) = m"
proof (cases "devices m d")
  case None
  then show ?thesis by (simp add: assign_device_def get_device_def)
next
  case dev: (Some dev)
  show ?thesis
  proof (cases "seats m k")
    case None
    then show ?thesis using dev by (simp add: assign_device_def get_device_def get_seat_def)
  next
    case st: (Some st)
    show ?thesis
    proof (cases "truthy (seat_id dev) \<and> \<not> force")
      case True
      then show ?thesis
        using dev st by (simp add: assign_device_def get_device_def get_seat_def)
    next
      case False
      have False
        using fails dev st False unassign_device_result [OF dev]
        by (cases "truthy (seat_id dev)")
           (simp_all add: assign_device_def get_device_def get_seat_def Let_def
                     split: prod.splits sum.splits)
      then show ?thesis ..
    qed
  qed
qed

lemma auto_assign_device_fails:
  "fst (auto_assign_device m d) = Inl e \<Longrightarrow> snd (auto_assign_device m d) = m"
  using assign_device_fails [of m d "default_seat_id m" False]
  by (cases "assign_device m d (default_seat_id m) False")
     (auto simp add: auto_assign_device_def split: sum.splits)

lemma request_pointer_grab_fails:
  "fst (request_pointer_grab m k c md sf now) = Inl e \<Longrightarrow>
     snd (request_pointer_grab m k c md sf now) = m"
  by (simp add: request_pointer_grab_def get_seat_def Let_def split: option.splits if_splits)

lemma release_pointer_grab_fails:
  "fst (release_pointer_grab m k) = Inl e \<Longrightarrow> snd (release_pointer_grab m k) = m"
  by (simp add: release_pointer_grab_def get_seat_def Let_def split: option.splits if_splits)

lemma returning_fst: "fst (returning f r) = Inl e \<longleftrightarrow> fst r = Inl e"
  by (cases r) (auto simp add: returning_def split: sum.splits)

lemma returning_snd [simp]: "snd (returning f r) = snd r"
  by (cases r) (auto simp add: returning_def split: sum.splits)

text \<open>
  Claim C7. When a call of a registry operation raises, the registry it leaves behind is
  the registry it found: every check that can raise comes before the first mutation, and
  the nested \<^verbatim>\<open>unassign_device\<close> of \<^verbatim>\<open>assign_device\<close> and
  \<^verbatim>\<open>unregister_device\<close> cannot raise, since the device was looked up just before.
\<close>

theorem failed_operation_changes_nothing:
  assumes fails: "fst (perform m op) = Inl e"
  shows "snd (perform m op) = m"
  using fails
proof (cases op)
  case (Create_seat uuid name)
  then show ?thesis using fails by (simp split: prod.splits)
next
  case (Destroy_seat k)
  then show ?thesis using fails by (simp add: returning_fst destroy_seat_fails)
next
  case (Set_seat_state k st)
  then show ?thesis using fails by (simp add: returning_fst set_seat_state_fails)
next
  case (Unregister_device d)
  then show ?thesis using fails by (simp add: returning_fst unregister_device_fails)
next
  case (Assign_device d k force)
  then show ?thesis using fails by (simp add: returning_fst assign_device_fails)
next
  case (Unassign_device d)
  then show ?thesis using fails by (simp add: returning_fst unassign_device_fails)
next
  case (Auto_assign_device d)
  then show ?thesis using fails by (simp add: returning_fst auto_assign_device_fails)
next
  case (Request_pointer_grab k c md sf now)
  then show ?thesis using fails by (simp add: returning_fst request_pointer_grab_fails)
next
  case (Release_pointer_grab k)
  then show ?thesis using fails by (simp add: returning_fst release_pointer_grab_fails)
qed (simp_all split: prod.splits)



subsection \<open>Concrete instances on the example registry\<close>

lemma example_manager_seats:
  "seats example_manager = [''uuid-seat0'' \<mapsto> new_seat ''uuid-seat0'' ''seat0'']"
  by (simp add: example_manager_def seat_manager_init_def create_seat_def Let_def new_seat_def
           split: prod.splits)

lemma example_manager_devices: "devices example_manager = Map.empty"
  by (simp add: example_manager_def seat_manager_init_def create_seat_def Let_def
           split: prod.splits)

lemma new_seat_not_grabbed: "\<not> is_pointer_grabbed (new_seat uuid name)"
  by (simp add: is_pointer_grabbed_def new_seat_def)

theorem unassign_device_noop_witness:
  "devices (register_device example_manager example_mouse) ''mouse1'' = Some example_mouse
   \<and> \<not> truthy (seat_id example_mouse)
   \<and> unassign_device (register_device example_manager example_mouse) ''mouse1''
       = (Inr (), register_device example_manager example_mouse)"
  using unassign_device_noop
          [of "register_device example_manager example_mouse" "''mouse1''" example_mouse]
  by (simp add: register_device_def example_mouse_def)

theorem request_pointer_grab_contract_witness:
  "seats example_manager ''uuid-seat0'' = Some (new_seat ''uuid-seat0'' ''seat0'')
   \<and> \<not> is_pointer_grabbed (new_seat ''uuid-seat0'' ''seat0'')
   \<and> fst (request_pointer_grab example_manager ''uuid-seat0'' ''game'' GrabMode_POINTER_LOCK
             None 0) = Inr True
   \<and> request_pointer_grab
        (snd (request_pointer_grab example_manager ''uuid-seat0'' ''game''
                GrabMode_POINTER_LOCK None 0))
        ''uuid-seat0'' ''other'' GrabMode_POINTER_LOCK None 1
       = (Inr False,
          snd (request_pointer_grab example_manager ''uuid-seat0'' ''game''
                 GrabMode_POINTER_LOCK None 0))"
proof -
  let ?st = "new_seat ''uuid-seat0'' ''seat0''"
  let ?g = "\<lparr>mode = GrabMode_POINTER_LOCK, client_id = ''game'', surface_id = None,
              started_at = 0\<rparr>"
  have a: "seats example_manager ''uuid-seat0'' = Some ?st"
    by (simp add: example_manager_seats)
  have b: "\<not> is_pointer_grabbed ?st" by (rule new_seat_not_grabbed)
  from request_pointer_grab_contract
         [of example_manager "''uuid-seat0''" ?st "''game''" GrabMode_POINTER_LOCK None 0] a b
  obtain m' where
    r: "request_pointer_grab example_manager ''uuid-seat0'' ''game'' GrabMode_POINTER_LOCK
          None 0 = (Inr True, m')"
    and s: "seats m' = (seats example_manager)(''uuid-seat0'' \<mapsto> ?st\<lparr>pointer_grab := Some ?g\<rparr>)"
    by blast
  have c: "seats m' ''uuid-seat0'' = Some (?st\<lparr>pointer_grab := Some ?g\<rparr>)"
    by (simp add: s)
  have d: "is_pointer_grabbed (?st\<lparr>pointer_grab := Some ?g\<rparr>)"
    by (simp add: is_pointer_grabbed_def is_active_def)
  from request_pointer_grab_contract
         [of m' "''uuid-seat0''" "?st\<lparr>pointer_grab := Some ?g\<rparr>" "''other''"
             GrabMode_POINTER_LOCK None 1] c d
  have "request_pointer_grab m' ''uuid-seat0'' ''other'' GrabMode_POINTER_LOCK None 1
          = (Inr False, m')"
    by blast
  with a b r show ?thesis by simp
qed

theorem mode_none_grab_is_inactive_witness:
  "seats example_manager ''uuid-seat0'' = Some (new_seat ''uuid-seat0'' ''seat0'')
   \<and> \<not> is_pointer_grabbed (new_seat ''uuid-seat0'' ''seat0'')
   \<and> fst (request_pointer_grab example_manager ''uuid-seat0'' ''game'' GrabMode_NONE None 0)
       = Inr True
   \<and> release_pointer_grab
        (snd (request_pointer_grab example_manager ''uuid-seat0'' ''game'' GrabMode_NONE None 0))
        ''uuid-seat0''
       = (Inr (),
          snd (request_pointer_grab example_manager ''uuid-seat0'' ''game'' GrabMode_NONE None 0))"
proof -
  have a: "seats example_manager ''uuid-seat0'' = Some (new_seat ''uuid-seat0'' ''seat0'')"
    by (simp add: example_manager_seats)
  have b: "\<not> is_pointer_grabbed (new_seat ''uuid-seat0'' ''seat0'')"
    by (rule new_seat_not_grabbed)
  from mode_none_grab_is_inactive [OF a b, of "''game''" None 0 "''game''" GrabMode_NONE None 0]
  obtain m1 where
    "request_pointer_grab example_manager ''uuid-seat0'' ''game'' GrabMode_NONE None 0
       = (Inr True, m1)"
    and "release_pointer_grab m1 ''uuid-seat0'' = (Inr (), m1)"
    by blast
  with a b show ?thesis by simp
qed

theorem request_pointer_grab_frame_witness:
  "''uuid-aux'' \<noteq> ''uuid-seat0''
   \<and> seats (snd (request_pointer_grab (snd (create_seat example_manager ''uuid-aux'' ''aux''))
                  ''uuid-seat0'' ''game'' GrabMode_POINTER_LOCK None 0)) ''uuid-aux''
       = Some (new_seat ''uuid-aux'' ''aux'')"
  using request_pointer_grab_frame
          [of "''uuid-aux''" "''uuid-seat0''"
              "snd (create_seat example_manager ''uuid-aux'' ''aux'')"
              "''game''" GrabMode_POINTER_LOCK None 0]
  by (simp add: create_seat_def Let_def new_seat_def)

theorem failed_operation_changes_nothing_witness:
  "fst (perform example_manager (Destroy_seat ''uuid-seat0'')) = Inl SeatManagerError
   \<and> snd (perform example_manager (Destroy_seat ''uuid-seat0'')) = example_manager"
proof -
  have d: "default_seat_id example_manager = ''uuid-seat0''"
    by (simp add: example_manager_def seat_manager_init_def create_seat_def Let_def new_seat_def)
  have f: "fst (perform example_manager (Destroy_seat ''uuid-seat0'')) = Inl SeatManagerError"
    by (simp add: returning_def destroy_seat_def example_manager_seats d)
  from failed_operation_changes_nothing [OF f] f show ?thesis by simp
qed


subsection \<open>Seat identifiers and the default seat\<close>

lemma seat_ids_emit_event [simp]: "seat_ids (emit_event m ev) = seat_ids m"
  by (simp add: seat_ids_def)

lemma seat_ids_update_device [simp]: "seat_ids (update_device m k f) = seat_ids m"
  by (simp add: seat_ids_def)

lemma seat_ids_update_seat:
  "(\<And>s. id_s (f s) = id_s s) \<Longrightarrow> seat_ids (update_seat m k f) = seat_ids m"
  by (auto simp add: seat_ids_def fun_eq_iff split: option.splits)

lemma seat_ids_unassign_device [simp]: "seat_ids (snd (unassign_device m d)) = seat_ids m"
  by (simp add: unassign_device_def get_device_def Let_def seat_ids_update_seat
        remove_pointer_device_def remove_keyboard_device_def split: option.splits)

lemma default_unassign_device [simp]:
  "default_seat_id (snd (unassign_device m d)) = default_seat_id m"
  by (simp add: unassign_device_def get_device_def Let_def split: option.splits)

lemma unregister_device_known:
  assumes "devices m d = Some dev"
  shows "unregister_device m d =
           (Inr (),
            emit_event
              ((if truthy (seat_id dev) then snd (unassign_device m d) else m)
                 \<lparr>devices := (devices (if truthy (seat_id dev) then snd (unassign_device m d)
                                        else m))(d := None)\<rparr>)
              \<lparr>event_type = DEVICE_REMOVED, seat_id_e = None, device_id_e = Some d,
               data = [(''name'', PStr (name_d dev))]\<rparr>)"
proof (cases "truthy (seat_id dev)")
  case True
  obtain m1 where u: "unassign_device m d = (Inr (), m1)"
    using unassign_device_result [OF assms] by blast
  show ?thesis using assms True u by (simp add: unregister_device_def Let_def)
next
  case False
  then show ?thesis using assms by (simp add: unregister_device_def Let_def)
qed

lemma seat_ids_unregister_device [simp]: "seat_ids (snd (unregister_device m d)) = seat_ids m"
proof (cases "devices m d")
  case None
  then show ?thesis by (simp add: unregister_device_def)
next
  case (Some dev)
  have "seat_ids (snd (unassign_device m d)) = seat_ids m" by simp
  then show ?thesis
    by (simp add: unregister_device_known [OF Some] seat_ids_def)
qed

lemma default_unregister_device [simp]:
  "default_seat_id (snd (unregister_device m d)) = default_seat_id m"
proof (cases "devices m d")
  case None
  then show ?thesis by (simp add: unregister_device_def)
next
  case (Some dev)
  show ?thesis by (simp add: unregister_device_known [OF Some])
qed

lemma assign_device_performed:
  assumes "devices m d = Some dev" and "seats m k = Some st"
    and "\<not> (truthy (seat_id dev) \<and> \<not> force)"
  shows "assign_device m d k force =
           (Inr (),
            emit_event
              (let m3 = (if truthy (seat_id dev) then snd (unassign_device m d) else m);
                   m4 = update_device m3 d (\<lambda>x. x\<lparr>seat_id := Some k\<rparr>);
                   m5 = (if has_capability dev Cap_POINTER
                         then update_seat m4 k (add_pointer_device d) else m4)
               in if has_capability dev Cap_KEYBOARD
                  then update_seat m5 k (add_keyboard_device d) else m5)
              \<lparr>event_type = DEVICE_ASSIGNED, seat_id_e = Some k, device_id_e = Some d,
               data = [(''device_name'', PStr (name_d dev)),
                       (''seat_name'', PStr (name_s st))]\<rparr>)"
proof (cases "truthy (seat_id dev)")
  case True
  obtain m1 where u: "unassign_device m d = (Inr (), m1)"
    using unassign_device_result [OF assms(1)] by blast
  show ?thesis
    using assms True u by (simp add: assign_device_def get_device_def get_seat_def Let_def)
next
  case False
  then show ?thesis
    using assms by (simp add: assign_device_def get_device_def get_seat_def Let_def)
qed

lemma assign_device_cases:
  obtains (unknown_device) "devices m d = None"
      "assign_device m d k force = (Inl DeviceNotFoundError, m)"
  | (unknown_seat) dev where "devices m d = Some dev" "seats m k = None"
      "assign_device m d k force = (Inl SeatNotFoundError, m)"
  | (already) dev st where "devices m d = Some dev" "seats m k = Some st"
      "truthy (seat_id dev)" "\<not> force"
      "assign_device m d k force = (Inl DeviceAlreadyAssignedError, m)"
  | (performed) dev st where "devices m d = Some dev" "seats m k = Some st"
      "\<not> (truthy (seat_id dev) \<and> \<not> force)"
proof (cases "devices m d")
  case None
  then show ?thesis
    using unknown_device by (simp add: assign_device_def get_device_def)
next
  case dev: (Some dev)
  show ?thesis
  proof (cases "seats m k")
    case None
    then show ?thesis
      using dev unknown_seat by (simp add: assign_device_def get_device_def get_seat_def)
  next
    case st: (Some st)
    show ?thesis
    proof (cases "truthy (seat_id dev) \<and> \<not> force")
      case True
      then show ?thesis
        using dev st already by (simp add: assign_device_def get_device_def get_seat_def)
    next
      case False
      then show ?thesis using dev st performed by blast
    qed
  qed
qed

lemma seat_ids_assign_device [simp]:
  "seat_ids (snd (assign_device m d k force)) = seat_ids m"
proof (cases rule: assign_device_cases [of m d k force])
  case (performed dev st)
  have "seat_ids (snd (unassign_device m d)) = seat_ids m" by simp
  then show ?thesis
    by (simp add: assign_device_performed [OF performed] Let_def seat_ids_update_seat
          add_pointer_device_def add_keyboard_device_def)
qed simp_all

lemma default_assign_device [simp]:
  "default_seat_id (snd (assign_device m d k force)) = default_seat_id m"
proof (cases rule: assign_device_cases [of m d k force])
  case (performed dev st)
  then show ?thesis
    by (simp add: assign_device_performed [OF performed] Let_def)
qed simp_all

lemma seat_ids_perform:
  "seat_ids (snd (perform m op)) =
     (case op of
        Create_seat uuid name \<Rightarrow> (seat_ids m)(uuid \<mapsto> uuid)
      | Destroy_seat k \<Rightarrow>
          if seats m k \<noteq> None \<and> k \<noteq> default_seat_id m then (seat_ids m)(k := None)
          else seat_ids m
      | _ \<Rightarrow> seat_ids m)"
proof (cases op)
  case (Create_seat uuid name)
  then show ?thesis
    by (auto simp add: create_seat_def Let_def new_seat_def seat_ids_def fun_eq_iff)
next
  case (Destroy_seat k)
  then show ?thesis
    by (auto simp add: destroy_seat_def Let_def seat_ids_def fun_eq_iff split: option.splits)
next
  case (Set_seat_state k st)
  then show ?thesis
    by (simp add: set_seat_state_def get_seat_def Let_def seat_ids_update_seat
             split: option.splits)
next
  case (Register_device dev)
  then show ?thesis by (simp add: register_device_def seat_ids_def)
next
  case (Auto_assign_device d)
  then show ?thesis
    using seat_ids_assign_device [of m d "default_seat_id m" False]
    by (cases "assign_device m d (default_seat_id m) False")
       (auto simp add: auto_assign_device_def split: sum.splits)
next
  case (Route_pointer_motion d dx dy)
  then show ?thesis
    by (simp add: route_pointer_motion_def Let_def seat_ids_update_seat move_by_def
             split: option.splits prod.splits)
next
  case (Route_pointer_button d b p)
  then show ?thesis
    by (simp add: route_pointer_button_def split: option.splits prod.splits)
next
  case (Route_keyboard_key d b p)
  then show ?thesis
    by (simp add: route_keyboard_key_def split: option.splits prod.splits)
next
  case (Request_pointer_grab k c md sf now)
  then show ?thesis
    by (simp add: request_pointer_grab_def get_seat_def Let_def seat_ids_update_seat
          set_pointer_grab_def split: option.splits)
next
  case (Release_pointer_grab k)
  then show ?thesis
    by (simp add: release_pointer_grab_def get_seat_def Let_def seat_ids_update_seat
          seat_release_pointer_grab_def split: option.splits)
next
  case (Set_display_bounds b)
  then show ?thesis by (simp add: set_display_bounds_def seat_ids_def)
next
  case (Add_event_listener l)
  then show ?thesis by (simp add: add_event_listener_def seat_ids_def)
next
  case (Remove_event_listener l)
  then show ?thesis by (simp add: remove_event_listener_def seat_ids_def)
qed simp_all

lemma default_perform [simp]: "default_seat_id (snd (perform m op)) = default_seat_id m"
proof (cases op)
  case (Create_seat uuid name)
  then show ?thesis by (simp add: create_seat_def Let_def)
next
  case (Destroy_seat k)
  then show ?thesis by (simp add: destroy_seat_def Let_def split: option.splits)
next
  case (Set_seat_state k st)
  then show ?thesis by (simp add: set_seat_state_def get_seat_def Let_def split: option.splits)
next
  case (Register_device dev)
  then show ?thesis by (simp add: register_device_def)
next
  case (Auto_assign_device d)
  then show ?thesis
    using default_assign_device [of m d "default_seat_id m" False]
    by (cases "assign_device m d (default_seat_id m) False")
       (auto simp add: auto_assign_device_def split: sum.splits)
next
  case (Route_pointer_motion d dx dy)
  then show ?thesis
    by (simp add: route_pointer_motion_def Let_def split: option.splits prod.splits)
next
  case (Route_pointer_button d b p)
  then show ?thesis
    by (simp add: route_pointer_button_def split: option.splits prod.splits)
next
  case (Route_keyboard_key d b p)
  then show ?thesis
    by (simp add: route_keyboard_key_def split: option.splits prod.splits)
next
  case (Request_pointer_grab k c md sf now)
  then show ?thesis
    by (simp add: request_pointer_grab_def get_seat_def Let_def split: option.splits)
next
  case (Release_pointer_grab k)
  then show ?thesis
    by (simp add: release_pointer_grab_def get_seat_def Let_def split: option.splits)
next
  case (Set_display_bounds b)
  then show ?thesis by (simp add: set_display_bounds_def)
next
  case (Add_event_listener l)
  then show ?thesis by (simp add: add_event_listener_def)
next
  case (Remove_event_listener l)
  then show ?thesis by (simp add: remove_event_listener_def)
qed simp_all


lemma default_run [simp]: "default_seat_id (run m ops) = default_seat_id m"
  by (induction ops arbitrary: m) simp_all

lemma default_seat_kept_perform:
  assumes "seat_ids m (default_seat_id m) = Some (default_seat_id m)"
  shows "seat_ids (snd (perform m op)) (default_seat_id m) = Some (default_seat_id m)"
  using assms by (simp add: seat_ids_perform split: operation.splits)

lemma default_seat_kept_run:
  "seat_ids m (default_seat_id m) = Some (default_seat_id m) \<Longrightarrow>
     seat_ids (run m ops) (default_seat_id m) = Some (default_seat_id m)"
proof (induction ops arbitrary: m)
  case Nil
  then show ?case by simp
next
  case (Cons op ops)
  from Cons.IH [of "snd (perform m op)"] default_seat_kept_perform [OF Cons.prems, of op]
  show ?case by simp
qed

lemma keys_are_ids_iff: "keys_are_ids m \<longleftrightarrow> (\<forall>k v. seat_ids m k = Some v \<longrightarrow> v = k)"
  by (auto simp add: keys_are_ids_def seat_ids_def)

lemma keys_are_ids_perform: "keys_are_ids m \<Longrightarrow> keys_are_ids (snd (perform m op))"
  unfolding keys_are_ids_iff
  by (simp add: seat_ids_perform split: operation.splits)

lemma keys_are_ids_run: "keys_are_ids m \<Longrightarrow> keys_are_ids (run m ops)"
  by (induction ops arbitrary: m) (simp_all add: keys_are_ids_perform)

lemma seat_manager_init_seats:
  "seats (seat_manager_init uuid name) = [uuid \<mapsto> new_seat uuid name]"
  by (simp add: seat_manager_init_def create_seat_def Let_def new_seat_def)

lemma seat_manager_init_default [simp]:
  "default_seat_id (seat_manager_init uuid name) = uuid"
  by (simp add: seat_manager_init_def create_seat_def Let_def new_seat_def)

lemma seat_manager_init_keys: "keys_are_ids (seat_manager_init uuid name)"
  by (simp add: keys_are_ids_def seat_manager_init_seats new_seat_def)

lemma seat_manager_init_seat_ids:
  "seat_ids (seat_manager_init uuid name) uuid = Some uuid"
  by (simp add: seat_ids_def seat_manager_init_seats new_seat_def)

lemma destroy_seat_unknown:
  "seats m k = None \<Longrightarrow> destroy_seat m k = (Inl SeatNotFoundError, m)"
  by (simp add: destroy_seat_def)

lemma destroy_seat_default:
  "seats m (default_seat_id m) \<noteq> None \<Longrightarrow>
     destroy_seat m (default_seat_id m) = (Inl SeatManagerError, m)"
  by (auto simp add: destroy_seat_def)

text \<open>
  Claim C6. After any list of calls on a registry built with default seat identifier
  \<open>uuid\<close>, \<^verbatim>\<open>destroy_seat\<close> on \<open>uuid\<close> raises the base \<^verbatim>\<open>SeatManagerError\<close>
  (the error kind for the attempt on the default seat) and leaves the registry as it was.
  On an identifier that is not a key of \<^verbatim>\<open>_seats\<close> it raises
  \<^verbatim>\<open>SeatNotFoundError\<close>, in any registry.
\<close>

theorem default_seat_protected:
  "destroy_seat (run (seat_manager_init uuid name) ops) uuid
     = (Inl SeatManagerError, run (seat_manager_init uuid name) ops)
   \<and> (seats m k = None \<longrightarrow> destroy_seat m k = (Inl SeatNotFoundError, m))"
proof
  let ?m = "run (seat_manager_init uuid name) ops"
  have "seat_ids ?m uuid = Some uuid"
    using default_seat_kept_run [of "seat_manager_init uuid name" ops]
    by (simp add: seat_manager_init_seat_ids)
  then have "seats ?m (default_seat_id ?m) \<noteq> None"
    by (auto simp add: seat_ids_def)
  from destroy_seat_default [OF this]
  show "destroy_seat ?m uuid = (Inl SeatManagerError, ?m)" by simp
next
  show "seats m k = None \<longrightarrow> destroy_seat m k = (Inl SeatNotFoundError, m)"
    by (simp add: destroy_seat_unknown)
qed

theorem default_seat_protected_witness:
  "seats example_manager ''no-such-seat'' = None
   \<and> destroy_seat example_manager ''no-such-seat'' = (Inl SeatNotFoundError, example_manager)
   \<and> fst (destroy_seat
            (run (seat_manager_init ''uuid-seat0'' ''seat0'')
               [Create_seat ''uuid-aux'' ''aux'', Destroy_seat ''uuid-seat0''])
            ''uuid-seat0'') = Inl SeatManagerError"
  using default_seat_protected
          [of "''uuid-seat0''" "''seat0''"
              "[Create_seat ''uuid-aux'' ''aux'', Destroy_seat ''uuid-seat0'']"
              example_manager "''no-such-seat''"]
  by (simp add: example_manager_seats)


subsection \<open>Routing of pointer motion\<close>

lemma route_pointer_motion_routed:
  assumes "devices m d = Some dev" and "seat_id dev = Some k" and "k \<noteq> []"
    and "seats m k = Some st" and "state st = ACTIVE"
  shows "route_pointer_motion m d dx dy =
           (Some (id_s st),
            emit_event
              (m\<lparr>seats := (seats m)(k \<mapsto> st\<lparr>cursor := (cursor st)\<lparr>position :=
                    clamped_target (display_bounds m) (position (cursor st)) dx dy\<rparr>\<rparr>)\<rparr>)
              \<lparr>event_type = POINTER_MOTION, seat_id_e = Some (id_s st), device_id_e = Some d,
               data = [(''dx'', PFloat dx), (''dy'', PFloat dy),
                       (''x'', PFloat (pos_x (clamped_target (display_bounds m)
                                                (position (cursor st)) dx dy))),
                       (''y'', PFloat (pos_y (clamped_target (display_bounds m)
                                                (position (cursor st)) dx dy)))]\<rparr>)"
  using assms
  by (simp add: route_pointer_motion_def Let_def update_seat_def move_by_def clamped_target_def)

lemma route_pointer_motion_none_iff:
  "fst (route_pointer_motion m d dx dy) = None \<longleftrightarrow>
     (devices m d = None
      \<or> (\<exists>dev. devices m d = Some dev
            \<and> (\<not> truthy (seat_id dev)
               \<or> (\<exists>k. seat_id dev = Some k
                     \<and> (seats m k = None
                        \<or> (\<exists>st. seats m k = Some st \<and> state st \<noteq> ACTIVE))))))"
  by (auto simp add: route_pointer_motion_def Let_def split: option.splits)

lemma route_pointer_motion_none_unchanged:
  "fst (route_pointer_motion m d dx dy) = None \<Longrightarrow> snd (route_pointer_motion m d dx dy) = m"
  by (auto simp add: route_pointer_motion_def Let_def split: option.splits if_splits)

lemma route_pointer_motion_some:
  assumes "fst (route_pointer_motion m d dx dy) = Some r"
  shows "\<exists>dev k st. devices m d = Some dev \<and> seat_id dev = Some k \<and> k \<noteq> []
           \<and> seats m k = Some st \<and> state st = ACTIVE \<and> r = id_s st"
  using assms
  by (auto simp add: route_pointer_motion_def Let_def split: option.splits if_splits)

text \<open>
  Claim C5. \<^verbatim>\<open>route_pointer_motion\<close> returns \<^verbatim>\<open>None\<close> exactly when the device is
  not registered, its \<^verbatim>\<open>seat_id\<close> is false, that identifier is not a key of
  \<^verbatim>\<open>_seats\<close>, or the seat is not \<^verbatim>\<open>ACTIVE\<close>; then the registry is unchanged, so no
  cursor moves and no event is emitted. Otherwise it returns the identifier of the seat
  object found under the device's \<^verbatim>\<open>seat_id\<close>, and in a registry produced by calls
  from the constructor on, that is the device's \<^verbatim>\<open>seat_id\<close> itself.
\<close>

theorem route_pointer_motion_guards:
  "(fst (route_pointer_motion m d dx dy) = None \<longleftrightarrow>
     (devices m d = None
      \<or> (\<exists>dev. devices m d = Some dev
            \<and> (\<not> truthy (seat_id dev)
               \<or> (\<exists>k. seat_id dev = Some k
                     \<and> (seats m k = None
                        \<or> (\<exists>st. seats m k = Some st \<and> state st \<noteq> ACTIVE)))))))
   \<and> (fst (route_pointer_motion m d dx dy) = None \<longrightarrow>
        snd (route_pointer_motion m d dx dy) = m)
   \<and> (\<forall>r. fst (route_pointer_motion m d dx dy) = Some r \<longrightarrow>
        (\<exists>dev k st. devices m d = Some dev \<and> seat_id dev = Some k
           \<and> seats m k = Some st \<and> r = id_s st))
   \<and> (\<forall>r. fst (route_pointer_motion (run (seat_manager_init uuid name) ops) d dx dy) = Some r
        \<longrightarrow> (\<exists>dev. devices (run (seat_manager_init uuid name) ops) d = Some dev
                \<and> seat_id dev = Some r))"
proof (intro conjI allI impI)
  show "fst (route_pointer_motion m d dx dy) = None \<longleftrightarrow>
     (devices m d = None
      \<or> (\<exists>dev. devices m d = Some dev
            \<and> (\<not> truthy (seat_id dev)
               \<or> (\<exists>k. seat_id dev = Some k
                     \<and> (seats m k = None
                        \<or> (\<exists>st. seats m k = Some st \<and> state st \<noteq> ACTIVE))))))"
    by (rule route_pointer_motion_none_iff)
next
  assume "fst (route_pointer_motion m d dx dy) = None"
  then show "snd (route_pointer_motion m d dx dy) = m"
    by (rule route_pointer_motion_none_unchanged)
next
  fix r
  assume "fst (route_pointer_motion m d dx dy) = Some r"
  from route_pointer_motion_some [OF this]
  show "\<exists>dev k st. devices m d = Some dev \<and> seat_id dev = Some k
          \<and> seats m k = Some st \<and> r = id_s st"
    by blast
next
  fix r
  let ?m = "run (seat_manager_init uuid name) ops"
  assume "fst (route_pointer_motion ?m d dx dy) = Some r"
  from route_pointer_motion_some [OF this] obtain dev k st where
    dev: "devices ?m d = Some dev" "seat_id dev = Some k"
    and st: "seats ?m k = Some st" "r = id_s st"
    by blast
  have "keys_are_ids ?m" by (simp add: keys_are_ids_run seat_manager_init_keys)
  with st have "r = k" by (simp add: keys_are_ids_def)
  with dev show "\<exists>dev. devices ?m d = Some dev \<and> seat_id dev = Some r" by simp
qed


lemma example_registered_devices:
  "devices (register_device (seat_manager_init ''uuid-seat0'' ''seat0'') example_mouse)
     = [''mouse1'' \<mapsto> example_mouse]"
  by (simp add: register_device_def example_mouse_def seat_manager_init_def create_seat_def
        Let_def)

lemma example_registered_seats:
  "seats (register_device (seat_manager_init ''uuid-seat0'' ''seat0'') example_mouse)
     = [''uuid-seat0'' \<mapsto> new_seat ''uuid-seat0'' ''seat0'']"
  by (simp add: register_device_def seat_manager_init_seats)

lemma example_assigned_devices:
  "devices example_assigned = [''mouse1'' \<mapsto> example_mouse\<lparr>seat_id := Some ''uuid-seat0''\<rparr>]"
proof -
  let ?m = "register_device (seat_manager_init ''uuid-seat0'' ''seat0'') example_mouse"
  have d: "devices ?m ''mouse1'' = Some example_mouse"
    by (simp add: example_registered_devices)
  have s: "seats ?m ''uuid-seat0'' = Some (new_seat ''uuid-seat0'' ''seat0'')"
    by (simp add: example_registered_seats)
  have n: "\<not> (truthy (seat_id example_mouse) \<and> \<not> False)" by (simp add: example_mouse_def)
  have c: "has_capability example_mouse Cap_POINTER" "\<not> has_capability example_mouse Cap_KEYBOARD"
    by (simp_all add: has_capability_def example_mouse_def)
  have t: "\<not> truthy (seat_id example_mouse)" by (simp add: example_mouse_def)
  show ?thesis
    unfolding example_assigned_def
    by (simp add: returning_def assign_device_performed [OF d s n] c t Let_def
          example_registered_devices example_registered_seats)
qed

lemma example_assigned_seats:
  "seats example_assigned
     = [''uuid-seat0'' \<mapsto> (new_seat ''uuid-seat0'' ''seat0'')\<lparr>pointer_devices := {''mouse1''}\<rparr>]"
proof -
  let ?m = "register_device (seat_manager_init ''uuid-seat0'' ''seat0'') example_mouse"
  have d: "devices ?m ''mouse1'' = Some example_mouse"
    by (simp add: example_registered_devices)
  have s: "seats ?m ''uuid-seat0'' = Some (new_seat ''uuid-seat0'' ''seat0'')"
    by (simp add: example_registered_seats)
  have n: "\<not> (truthy (seat_id example_mouse) \<and> \<not> False)" by (simp add: example_mouse_def)
  have c: "has_capability example_mouse Cap_POINTER" "\<not> has_capability example_mouse Cap_KEYBOARD"
    by (simp_all add: has_capability_def example_mouse_def)
  have t: "\<not> truthy (seat_id example_mouse)" by (simp add: example_mouse_def)
  show ?thesis
    unfolding example_assigned_def
    by (simp add: returning_def assign_device_performed [OF d s n] c t Let_def
          example_registered_devices example_registered_seats add_pointer_device_def
          new_seat_def)
qed

theorem route_pointer_motion_guards_witness:
  "fst (route_pointer_motion example_assigned ''mouse1'' 100 50) = Some ''uuid-seat0''
   \<and> (\<exists>dev. devices example_assigned ''mouse1'' = Some dev \<and> seat_id dev = Some ''uuid-seat0'')
   \<and> fst (route_pointer_motion example_manager ''mouse1'' 100 50) = None
   \<and> snd (route_pointer_motion example_manager ''mouse1'' 100 50) = example_manager"
proof -
  have d: "devices example_assigned ''mouse1'' = Some (example_mouse\<lparr>seat_id := Some ''uuid-seat0''\<rparr>)"
    by (simp add: example_assigned_devices)
  have s: "seats example_assigned ''uuid-seat0''
             = Some ((new_seat ''uuid-seat0'' ''seat0'')\<lparr>pointer_devices := {''mouse1''}\<rparr>)"
    by (simp add: example_assigned_seats)
  have r: "fst (route_pointer_motion example_assigned ''mouse1'' 100 50) = Some ''uuid-seat0''"
    by (simp add: route_pointer_motion_routed [OF d _ _ s] new_seat_def)
  have u: "devices example_manager ''mouse1'' = None"
    by (simp add: example_manager_devices)
  from route_pointer_motion_guards
         [of example_manager "''mouse1''" 100 50 "''uuid-seat0''" "''seat0''"
             "[Register_device example_mouse, Assign_device ''mouse1'' ''uuid-seat0'' False]"]
       r u
  show ?thesis
    unfolding example_assigned_def by simp
qed

subsection \<open>Event delivery\<close>





lemma without_listeners_fields [simp]:
  "seats (without_listeners m) = seats m"
  "devices (without_listeners m) = devices m"
  "display_bounds (without_listeners m) = display_bounds m"
  "default_seat_id (without_listeners m) = default_seat_id m"
  "emitted (without_listeners m) = emitted m"
  "event_listeners (without_listeners m) = []"
  by (simp_all add: without_listeners_def)




















lemma without_listeners_idem [simp]:
  "without_listeners (without_listeners m) = without_listeners m"
  by (simp add: without_listeners_def)


lemma deliveries_append [simp]:
  "deliveries n (xs @ ys) = deliveries n xs @ deliveries n ys"
  by (simp add: deliveries_def)

lemma deliveries_single [simp]: "deliveries n [ev] = map (\<lambda>i. (i, ev)) [0..<n]"
  by (simp add: deliveries_def)

lemma deliveries_Nil [simp]: "deliveries n [] = []"
  by (simp add: deliveries_def)

lemma rounds_kept_refl [simp]: "rounds_kept m m"
  by (simp add: rounds_kept_def delivered_to_all_def)













lemma emitted_types_emit_event [simp]:
  "emitted_types (emit_event m ev) = emitted_types m @ [event_type ev]"
  by (simp add: emitted_types_def)

lemma emitted_types_update [simp]:
  "emitted_types (update_seat m k f) = emitted_types m"
  "emitted_types (update_device m k g) = emitted_types m"
  "emitted_types (m\<lparr>seats := x\<rparr>) = emitted_types m"
  "emitted_types (m\<lparr>devices := y\<rparr>) = emitted_types m"
  "emitted_types (m\<lparr>display_bounds := b\<rparr>) = emitted_types m"
  "emitted_types (m\<lparr>event_listeners := ls\<rparr>) = emitted_types m"
  by (simp_all add: emitted_types_def)







text \<open>
  A callback that unregisters itself while it is called makes the loop pass over the
  callback registered after it; the amended statement says nothing about such callbacks.
\<close>

lemma leaving_listener_skips_next:
  "raw_emit_loop [raw_leaving, raw_quiet 1, raw_quiet 2] 0 example_event ([], [])
     = (Completed, [raw_quiet 1, raw_quiet 2], [(0, example_event), (2, example_event)], [])"
  by (simp add: raw_emit_loop.simps raw_leaving_def raw_quiet_def after_call_def)




subsection \<open>Clamping of the cursor\<close>

lemma clamped_target_x:
  "pos_x (clamped_target b p dx dy) = max (clamp_min_x b) (min (clamp_max_x b) (pos_x p + dx))"
  by (simp add: clamped_target_def clamp_def move_def clamp_min_x_def clamp_max_x_def)

lemma clamped_target_y:
  "pos_y (clamped_target b p dx dy) = max (clamp_min_y b) (min (clamp_max_y b) (pos_y p + dy))"
  by (simp add: clamped_target_def clamp_def move_def clamp_min_y_def clamp_max_y_def)

lemma route_pointer_motion_cursor:
  assumes "devices m d = Some dev" and "seat_id dev = Some k" and "k \<noteq> []"
    and "seats m k = Some st" and "state st = ACTIVE"
  shows "cursor_position (snd (route_pointer_motion m d dx dy)) k
           = Some (clamped_target (display_bounds m) (position (cursor st)) dx dy)"
  by (simp add: route_pointer_motion_routed [OF assms] cursor_position_def)

lemma route_pointer_motion_twice:
  assumes "devices m d = Some dev" and "seat_id dev = Some k" and "k \<noteq> []"
    and "seats m k = Some st" and "state st = ACTIVE"
  shows "cursor_position
           (snd (route_pointer_motion (snd (route_pointer_motion m d dx dy)) d dx dy)) k
           = Some (clamped_target (display_bounds m)
                     (clamped_target (display_bounds m) (position (cursor st)) dx dy) dx dy)"
proof -
  let ?m1 = "snd (route_pointer_motion m d dx dy)"
  let ?st1 = "st\<lparr>cursor := (cursor st)\<lparr>position :=
                 clamped_target (display_bounds m) (position (cursor st)) dx dy\<rparr>\<rparr>"
  have d1: "devices ?m1 d = Some dev"
    using assms(1) by (simp add: route_pointer_motion_routed [OF assms])
  have s1: "seats ?m1 k = Some ?st1"
    by (simp add: route_pointer_motion_routed [OF assms])
  have a1: "state ?st1 = ACTIVE" using assms(5) by simp
  have b1: "display_bounds ?m1 = display_bounds m"
    by (simp add: route_pointer_motion_routed [OF assms])
  from route_pointer_motion_cursor [OF d1 assms(2) assms(3) s1 a1, of dx dy]
  show ?thesis by (simp add: b1)
qed

lemma clamp_again_x:
  assumes "clamp_min_x b \<le> pos_x p" and "pos_x p \<le> clamp_max_x b"
    and "pos_x p + dx < clamp_min_x b \<or> clamp_max_x b < pos_x p + dx"
  shows "pos_x (clamped_target b (clamped_target b p dx dy) dx dy)
           = pos_x (clamped_target b p dx dy)"
  using assms by (auto simp add: clamped_target_x min_def max_def)

lemma clamp_again_y:
  assumes "clamp_min_y b \<le> pos_y p" and "pos_y p \<le> clamp_max_y b"
    and "pos_y p + dy < clamp_min_y b \<or> clamp_max_y b < pos_y p + dy"
  shows "pos_y (clamped_target b (clamped_target b p dx dy) dx dy)
           = pos_y (clamped_target b p dx dy)"
  using assms by (auto simp add: clamped_target_y min_def max_def)

text \<open>
  Claim C4, as amended. For a device assigned to an active seat, \<^verbatim>\<open>route_pointer_motion\<close>
  sets the cursor to the clamp of position plus delta, coordinate by coordinate. When the
  width (height) is at least 1 the new x (y) lies between the two bounds, and a moved
  value above the upper bound lands on the upper bound; a moved value below the lower
  bound lands on the lower bound. Repeating the same motion sets the cursor to the clamp
  of the new position plus the same delta. If a coordinate of the cursor started between
  its bounds and the motion carries it out, the repeat leaves that coordinate unchanged.
\<close>

theorem route_pointer_motion_clamps:
  assumes "devices m d = Some dev" and "seat_id dev = Some k" and "k \<noteq> []"
    and "seats m k = Some st" and "state st = ACTIVE"
  shows "\<exists>q q2.
      cursor_position (snd (route_pointer_motion m d dx dy)) k = Some q
    \<and> q = clamp (move (position (cursor st)) dx dy)
              (clamp_min_x (display_bounds m)) (clamp_min_y (display_bounds m))
              (clamp_max_x (display_bounds m)) (clamp_max_y (display_bounds m))
    \<and> (1 \<le> width (display_bounds m) \<longrightarrow>
          clamp_min_x (display_bounds m) \<le> pos_x q \<and> pos_x q \<le> clamp_max_x (display_bounds m)
          \<and> (clamp_max_x (display_bounds m) < pos_x (position (cursor st)) + dx
                \<longrightarrow> pos_x q = clamp_max_x (display_bounds m)))
    \<and> (pos_x (position (cursor st)) + dx < clamp_min_x (display_bounds m)
          \<longrightarrow> pos_x q = clamp_min_x (display_bounds m))
    \<and> (1 \<le> height (display_bounds m) \<longrightarrow>
          clamp_min_y (display_bounds m) \<le> pos_y q \<and> pos_y q \<le> clamp_max_y (display_bounds m)
          \<and> (clamp_max_y (display_bounds m) < pos_y (position (cursor st)) + dy
                \<longrightarrow> pos_y q = clamp_max_y (display_bounds m)))
    \<and> (pos_y (position (cursor st)) + dy < clamp_min_y (display_bounds m)
          \<longrightarrow> pos_y q = clamp_min_y (display_bounds m))
    \<and> cursor_position
          (snd (route_pointer_motion (snd (route_pointer_motion m d dx dy)) d dx dy)) k = Some q2
    \<and> q2 = clamp (move q dx dy)
               (clamp_min_x (display_bounds m)) (clamp_min_y (display_bounds m))
               (clamp_max_x (display_bounds m)) (clamp_max_y (display_bounds m))
    \<and> (clamp_min_x (display_bounds m) \<le> pos_x (position (cursor st))
          \<and> pos_x (position (cursor st)) \<le> clamp_max_x (display_bounds m)
          \<and> (pos_x (position (cursor st)) + dx < clamp_min_x (display_bounds m)
               \<or> clamp_max_x (display_bounds m) < pos_x (position (cursor st)) + dx)
          \<longrightarrow> pos_x q2 = pos_x q)
    \<and> (clamp_min_y (display_bounds m) \<le> pos_y (position (cursor st))
          \<and> pos_y (position (cursor st)) \<le> clamp_max_y (display_bounds m)
          \<and> (pos_y (position (cursor st)) + dy < clamp_min_y (display_bounds m)
               \<or> clamp_max_y (display_bounds m) < pos_y (position (cursor st)) + dy)
          \<longrightarrow> pos_y q2 = pos_y q)"
proof -
  let ?b = "display_bounds m"
  let ?p = "position (cursor st)"
  let ?q = "clamped_target ?b ?p dx dy"
  let ?q2 = "clamped_target ?b ?q dx dy"
  have c1: "cursor_position (snd (route_pointer_motion m d dx dy)) k = Some ?q"
    by (rule route_pointer_motion_cursor [OF assms])
  have c2: "cursor_position
              (snd (route_pointer_motion (snd (route_pointer_motion m d dx dy)) d dx dy)) k
              = Some ?q2"
    by (rule route_pointer_motion_twice [OF assms])
  have e: "?q = clamp (move ?p dx dy) (clamp_min_x ?b) (clamp_min_y ?b)
                  (clamp_max_x ?b) (clamp_max_y ?b)"
    by (simp add: clamped_target_def clamp_min_x_def clamp_min_y_def clamp_max_x_def
          clamp_max_y_def)
  have e2: "?q2 = clamp (move ?q dx dy) (clamp_min_x ?b) (clamp_min_y ?b)
                    (clamp_max_x ?b) (clamp_max_y ?b)"
    by (simp add: clamped_target_def clamp_min_x_def clamp_min_y_def clamp_max_x_def
          clamp_max_y_def)
  have wx: "1 \<le> width ?b \<Longrightarrow> clamp_min_x ?b \<le> clamp_max_x ?b"
    by (simp add: clamp_min_x_def clamp_max_x_def)
  have wy: "1 \<le> height ?b \<Longrightarrow> clamp_min_y ?b \<le> clamp_max_y ?b"
    by (simp add: clamp_min_y_def clamp_max_y_def)
  have x1: "1 \<le> width ?b \<longrightarrow>
          clamp_min_x ?b \<le> pos_x ?q \<and> pos_x ?q \<le> clamp_max_x ?b
          \<and> (clamp_max_x ?b < pos_x ?p + dx \<longrightarrow> pos_x ?q = clamp_max_x ?b)"
    using wx by (auto simp add: clamped_target_x min_def max_def)
  have x2: "pos_x ?p + dx < clamp_min_x ?b \<longrightarrow> pos_x ?q = clamp_min_x ?b"
    by (auto simp add: clamped_target_x min_def max_def)
  have y1: "1 \<le> height ?b \<longrightarrow>
          clamp_min_y ?b \<le> pos_y ?q \<and> pos_y ?q \<le> clamp_max_y ?b
          \<and> (clamp_max_y ?b < pos_y ?p + dy \<longrightarrow> pos_y ?q = clamp_max_y ?b)"
    using wy by (auto simp add: clamped_target_y min_def max_def)
  have y2: "pos_y ?p + dy < clamp_min_y ?b \<longrightarrow> pos_y ?q = clamp_min_y ?b"
    by (auto simp add: clamped_target_y min_def max_def)
  have ix: "clamp_min_x ?b \<le> pos_x ?p \<and> pos_x ?p \<le> clamp_max_x ?b
          \<and> (pos_x ?p + dx < clamp_min_x ?b \<or> clamp_max_x ?b < pos_x ?p + dx)
          \<longrightarrow> pos_x ?q2 = pos_x ?q"
    using clamp_again_x [where b = ?b and p = ?p and dx = dx and dy = dy] by blast
  have iy: "clamp_min_y ?b \<le> pos_y ?p \<and> pos_y ?p \<le> clamp_max_y ?b
          \<and> (pos_y ?p + dy < clamp_min_y ?b \<or> clamp_max_y ?b < pos_y ?p + dy)
          \<longrightarrow> pos_y ?q2 = pos_y ?q"
    using clamp_again_y [where b = ?b and p = ?p and dx = dx and dy = dy] by blast
  show ?thesis
    apply (rule exI [of _ ?q])
    apply (rule exI [of _ ?q2])
    using c1 c2 e e2 x1 x2 y1 y2 ix iy by blast
qed

lemma display_bounds_unassign_device [simp]:
  "display_bounds (snd (unassign_device m d)) = display_bounds m"
  by (simp add: unassign_device_def get_device_def Let_def split: option.splits)

lemma display_bounds_assign_device [simp]:
  "display_bounds (snd (assign_device m d k force)) = display_bounds m"
proof (cases rule: assign_device_cases [of m d k force])
  case (performed dev st)
  then show ?thesis by (simp add: assign_device_performed [OF performed] Let_def)
qed simp_all

lemma example_assigned_bounds: "display_bounds example_assigned = default_display_bounds"
  by (simp add: example_assigned_def register_device_def seat_manager_init_def create_seat_def
        Let_def)

text \<open>
  The two conditions of the statement above are needed. With a width of 0 the interval
  for x is empty and the clamped x lies above its upper bound. From a cursor outside the
  bounds (as after \<^verbatim>\<open>set_display_bounds\<close> with a smaller rectangle, which does not
  re-clamp) a motion can leave the interval once and stay inside it on the repeat.
\<close>

lemma clamp_with_empty_interval:
  "clamp_max_x \<lparr>bounds_x = 0, bounds_y = 0, width = 0, height = 1080, bounds_name = ''empty''\<rparr>
     = - 1
   \<and> pos_x (clamped_target
               \<lparr>bounds_x = 0, bounds_y = 0, width = 0, height = 1080, bounds_name = ''empty''\<rparr>
               \<lparr>pos_x = 5, pos_y = 5\<rparr> 1 1) = 0"
  by (simp add: clamp_max_x_def clamped_target_def clamp_def move_def)

lemma clamp_from_outside:
  "pos_x (clamped_target default_display_bounds \<lparr>pos_x = 3000, pos_y = 0\<rparr> (- 100) 0) = 1919
   \<and> pos_x (clamped_target default_display_bounds
               (clamped_target default_display_bounds \<lparr>pos_x = 3000, pos_y = 0\<rparr> (- 100) 0)
               (- 100) 0) = 1819"
  by (simp add: clamped_target_def clamp_def move_def default_display_bounds_def)

text \<open>
  Claim C4 as stated fails. On a fresh registry with the default 1920 by 1080 bounds and
  a pointer device assigned to the default seat, the motion (2000, 10) leaves the
  rectangle and puts the cursor at (1919, 10); the same motion repeated puts it at
  (1919, 20): the cursor position changes, since the y coordinate was never out of range.
\<close>

theorem repeated_motion_moves_cursor:
  "\<not> contains (display_bounds example_assigned) (move \<lparr>pos_x = 0, pos_y = 0\<rparr> 2000 10)
   \<and> cursor_position (snd (route_pointer_motion example_assigned ''mouse1'' 2000 10))
        ''uuid-seat0'' = Some \<lparr>pos_x = 1919, pos_y = 10\<rparr>
   \<and> cursor_position
        (snd (route_pointer_motion
                (snd (route_pointer_motion example_assigned ''mouse1'' 2000 10))
                ''mouse1'' 2000 10))
        ''uuid-seat0'' = Some \<lparr>pos_x = 1919, pos_y = 20\<rparr>"
proof -
  have d: "devices example_assigned ''mouse1''
             = Some (example_mouse\<lparr>seat_id := Some ''uuid-seat0''\<rparr>)"
    by (simp add: example_assigned_devices)
  have i: "seat_id (example_mouse\<lparr>seat_id := Some ''uuid-seat0''\<rparr>) = Some ''uuid-seat0''"
    by simp
  have n: "''uuid-seat0'' \<noteq> []" by simp
  have s: "seats example_assigned ''uuid-seat0''
             = Some ((new_seat ''uuid-seat0'' ''seat0'')\<lparr>pointer_devices := {''mouse1''}\<rparr>)"
    by (simp add: example_assigned_seats)
  have a: "state ((new_seat ''uuid-seat0'' ''seat0'')\<lparr>pointer_devices := {''mouse1''}\<rparr>) = ACTIVE"
    by (simp add: new_seat_def)
  have p: "position (cursor ((new_seat ''uuid-seat0'' ''seat0'')\<lparr>pointer_devices := {''mouse1''}\<rparr>))
             = \<lparr>pos_x = 0, pos_y = 0\<rparr>"
    by (simp add: new_seat_def)
  show ?thesis
    by (simp add: route_pointer_motion_cursor [OF d i n s a]
          route_pointer_motion_twice [OF d i n s a] p example_assigned_bounds
          clamped_target_def clamp_def move_def default_display_bounds_def contains_def
          new_seat_def)
qed

subsection \<open>Uniqueness of device membership\<close>

lemma agree_emit_event [simp]: "assignments_agree (emit_event m ev) = assignments_agree m"
  by (simp add: assignments_agree_def)

lemma unheld_emit_event [simp]: "unheld (emit_event m ev) d = unheld m d"
  by (simp add: unheld_def)

lemma agree_unheld:
  assumes "assignments_agree m" and "devices m d = Some dev" and "\<not> truthy (seat_id dev)"
  shows "unheld m d"
  unfolding unheld_def
proof (intro allI impI)
  fix k st
  assume st: "seats m k = Some st"
  show "d \<notin> members st"
  proof
    assume "d \<in> members st"
    with assms(1) st have "k \<noteq> []" and "\<exists>dev'. devices m d = Some dev' \<and> seat_id dev' = Some k"
      by (auto simp add: assignments_agree_def)
    with assms(2,3) show False by auto
  qed
qed

lemma unassign_device_effect:
  assumes "devices m d = Some dev" and "seat_id dev = Some k" and "k \<noteq> []"
  shows "seats (snd (unassign_device m d)) =
           (case seats m k of None \<Rightarrow> seats m
            | Some st \<Rightarrow> (seats m)(k \<mapsto> st\<lparr>pointer_devices := pointer_devices st - {d},
                                               keyboard_devices := keyboard_devices st - {d}\<rparr>))"
    and "devices (snd (unassign_device m d)) = (devices m)(d \<mapsto> dev\<lparr>seat_id := None\<rparr>)"
  using assms
  by (simp_all add: unassign_device_def get_device_def Let_def remove_pointer_device_def
        remove_keyboard_device_def split: option.splits)

lemma agree_unassign_device:
  assumes "assignments_agree m"
  shows "assignments_agree (snd (unassign_device m d))"
proof (cases "devices m d")
  case None
  then show ?thesis using assms by (simp add: unassign_device_unknown)
next
  case (Some dev)
  show ?thesis
  proof (cases "truthy (seat_id dev)")
    case False
    then show ?thesis using assms Some by (simp add: unassign_device_unassigned)
  next
    case True
    then obtain k where k: "seat_id dev = Some k" "k \<noteq> []" by (cases "seat_id dev") auto
    note e = unassign_device_effect [OF Some k]
    show ?thesis
      unfolding assignments_agree_def
    proof (intro allI impI)
      fix k' st'
      assume s': "seats (snd (unassign_device m d)) k' = Some st'"
      then have "\<exists>st. seats m k' = Some st \<and> members st' \<subseteq> members st
                    \<and> (k' = k \<longrightarrow> d \<notin> members st')"
        by (cases "seats m k"; cases "k' = k") (auto simp add: e members_def)
      then obtain st where st: "seats m k' = Some st" and sub: "members st' \<subseteq> members st"
        and nd: "k' = k \<longrightarrow> d \<notin> members st'"
        by blast
      from assms st have ne: "k' \<noteq> []"
        and ag: "\<forall>x \<in> members st. \<exists>dv. devices m x = Some dv \<and> seat_id dv = Some k'"
        by (auto simp add: assignments_agree_def)
      have "\<forall>x \<in> members st'. \<exists>dv. devices (snd (unassign_device m d)) x = Some dv
                                   \<and> seat_id dv = Some k'"
      proof
        fix x
        assume x: "x \<in> members st'"
        with sub ag obtain dv where dv: "devices m x = Some dv" "seat_id dv = Some k'" by blast
        have "x \<noteq> d"
        proof
          assume "x = d"
          with dv Some k have "k' = k" by simp
          with nd x \<open>x = d\<close> show False by simp
        qed
        with dv show "\<exists>dv. devices (snd (unassign_device m d)) x = Some dv \<and> seat_id dv = Some k'"
          by (simp add: e)
      qed
      with ne show "k' \<noteq> [] \<and> (\<forall>x \<in> members st'.
                      \<exists>dv. devices (snd (unassign_device m d)) x = Some dv \<and> seat_id dv = Some k')"
        by simp
    qed
  qed
qed

lemma unheld_after_unassign_device:
  assumes "assignments_agree m" and "devices m d = Some dev"
  shows "unheld (snd (unassign_device m d)) d"
proof -
  from unassign_device_clears [OF assms(2)] obtain dev' where
    "devices (snd (unassign_device m d)) d = Some dev'" "\<not> truthy (seat_id dev')" by blast
  with agree_unassign_device [OF assms(1), of d] show ?thesis by (rule agree_unheld)
qed


lemma agree_member:
  "assignments_agree m \<Longrightarrow> seats m k = Some st \<Longrightarrow> d \<in> members st \<Longrightarrow>
     \<exists>dev. devices m d = Some dev \<and> seat_id dev = Some k"
  unfolding assignments_agree_def by blast

lemma agree_key: "assignments_agree m \<Longrightarrow> seats m k = Some st \<Longrightarrow> k \<noteq> []"
  unfolding assignments_agree_def by blast

lemma agree_cong:
  "seats m' = seats m \<Longrightarrow> devices m' = devices m \<Longrightarrow> assignments_agree m' = assignments_agree m"
  by (simp add: assignments_agree_def)

lemma unheld_cong: "seats m' = seats m \<Longrightarrow> unheld m' d = unheld m d"
  by (simp add: unheld_def)

lemma agree_update_seat:
  assumes "assignments_agree m" and "\<And>s. members (f s) = members s"
  shows "assignments_agree (update_seat m k f)"
  using assms
  by (auto simp add: assignments_agree_def split: option.splits if_splits)

lemma agree_create_seat:
  assumes "assignments_agree m" and "uuid \<noteq> []"
  shows "assignments_agree (snd (create_seat m uuid name))"
  using assms
  by (auto simp add: assignments_agree_def create_seat_def Let_def new_seat_def members_def
           split: if_splits)

lemma agree_destroy_seat:
  assumes "assignments_agree m"
  shows "assignments_agree (snd (destroy_seat m k))"
proof (cases "seats m k")
  case None
  then show ?thesis using assms by (simp add: destroy_seat_def)
next
  case (Some st)
  show ?thesis
  proof (cases "k = default_seat_id m")
    case True
    then show ?thesis using assms Some by (simp add: destroy_seat_def)
  next
    case False
    have "assignments_agree
            (m\<lparr>devices := (\<lambda>x. if x \<in> pointer_devices st \<union> keyboard_devices st
                                then map_option (\<lambda>d. d\<lparr>seat_id := None\<rparr>) (devices m x)
                                else devices m x),
               seats := (seats m)(k := None)\<rparr>)"
      unfolding assignments_agree_def
    proof (intro allI impI)
      fix k' st'
      assume "seats (m\<lparr>devices := (\<lambda>x. if x \<in> pointer_devices st \<union> keyboard_devices st
                                then map_option (\<lambda>d. d\<lparr>seat_id := None\<rparr>) (devices m x)
                                else devices m x),
               seats := (seats m)(k := None)\<rparr>) k' = Some st'"
      then have k': "k' \<noteq> k" and st': "seats m k' = Some st'"
        by (auto split: if_splits)
      from assms st' have ne: "k' \<noteq> []"
        and ag: "\<forall>x \<in> members st'. \<exists>dv. devices m x = Some dv \<and> seat_id dv = Some k'"
        using agree_key agree_member by blast+
      have "\<forall>x \<in> members st'. x \<notin> members st"
      proof
        fix x
        assume x: "x \<in> members st'"
        show "x \<notin> members st"
        proof
          assume "x \<in> members st"
          from agree_member [OF assms Some this]
          obtain dv where "devices m x = Some dv" "seat_id dv = Some k" by blast
          moreover from ag x obtain dv' where "devices m x = Some dv'" "seat_id dv' = Some k'"
            by blast
          ultimately show False using k' by simp
        qed
      qed
      with ag ne
      show "k' \<noteq> [] \<and> (\<forall>d \<in> members st'. \<exists>dev.
              devices (m\<lparr>devices := (\<lambda>x. if x \<in> pointer_devices st \<union> keyboard_devices st
                                then map_option (\<lambda>d. d\<lparr>seat_id := None\<rparr>) (devices m x)
                                else devices m x),
               seats := (seats m)(k := None)\<rparr>) d = Some dev \<and> seat_id dev = Some k')"
        by (simp add: members_def)
    qed
    then show ?thesis using Some False by (simp add: destroy_seat_def Let_def)
  qed
qed

lemma agree_register_device:
  assumes "assignments_agree m" and "unheld m (id_d dev)"
  shows "assignments_agree (register_device m dev)"
  using assms
  by (fastforce simp add: assignments_agree_def unheld_def register_device_def)

lemma agree_remove_unheld:
  assumes "assignments_agree m" and "unheld m d"
  shows "assignments_agree (m\<lparr>devices := (devices m)(d := None)\<rparr>)"
  using assms
  by (fastforce simp add: assignments_agree_def unheld_def)

lemma agree_unregister_device:
  assumes "assignments_agree m"
  shows "assignments_agree (snd (unregister_device m d))"
proof (cases "devices m d")
  case None
  then show ?thesis using assms by (simp add: unregister_device_def)
next
  case (Some dev)
  let ?m1 = "if truthy (seat_id dev) then snd (unassign_device m d) else m"
  have a1: "assignments_agree ?m1"
    using assms by (simp add: agree_unassign_device)
  have u1: "unheld ?m1 d"
    using assms Some by (simp add: unheld_after_unassign_device agree_unheld)
  from agree_remove_unheld [OF a1 u1]
  show ?thesis by (simp add: unregister_device_known [OF Some] del: fun_upd_apply)
qed


lemma agree_attach:
  assumes ag: "assignments_agree m3" and un: "unheld m3 d"
    and st3: "seats m3 k = Some st3"
    and dv: "devices m6 = (devices m3)(d \<mapsto> dev6)" "seat_id dev6 = Some k"
    and se: "seats m6 = (seats m3)(k \<mapsto> st6)" "members st6 \<subseteq> insert d (members st3)"
  shows "assignments_agree m6"
  unfolding assignments_agree_def
proof (intro allI impI conjI ballI)
  fix k' st'
  assume s': "seats m6 k' = Some st'"
  then have "\<exists>st. seats m3 k' = Some st" using st3 se(1) by (auto split: if_splits)
  then show "k' \<noteq> []" using agree_key [OF ag] by blast
next
  fix k' st' x
  assume s': "seats m6 k' = Some st'" and x: "x \<in> members st'"
  show "\<exists>dev. devices m6 x = Some dev \<and> seat_id dev = Some k'"
  proof (cases "x = d")
    case True
    have "k' = k"
    proof (rule ccontr)
      assume "k' \<noteq> k"
      with s' se(1) have "seats m3 k' = Some st'" by simp
      with un have "d \<notin> members st'" by (simp add: unheld_def)
      with x True show False by simp
    qed
    with True dv show ?thesis by simp
  next
    case False
    have "\<exists>st. seats m3 k' = Some st \<and> x \<in> members st"
    proof (cases "k' = k")
      case True
      with s' se(1) have "st' = st6" by simp
      with x se(2) False have "x \<in> members st3" by auto
      with st3 True show ?thesis by simp
    next
      case False
      with s' se(1) x show ?thesis by simp
    qed
    then obtain st where "seats m3 k' = Some st" "x \<in> members st" by blast
    from agree_member [OF ag this] False dv(1) show ?thesis by simp
  qed
qed

lemma unassign_device_keeps_keys:
  "seats m k = Some st \<Longrightarrow> \<exists>st'. seats (snd (unassign_device m d)) k = Some st'"
  by (auto simp add: unassign_device_def get_device_def Let_def split: option.splits)

lemma agree_assign_device:
  assumes "assignments_agree m"
  shows "assignments_agree (snd (assign_device m d k force))"
proof (cases rule: assign_device_cases [of m d k force])
  case (performed dev st)
  let ?m3 = "if truthy (seat_id dev) then snd (unassign_device m d) else m"
  have a3: "assignments_agree ?m3" using assms by (simp add: agree_unassign_device)
  have u3: "unheld ?m3 d"
    using assms performed(1) by (simp add: unheld_after_unassign_device agree_unheld)
  have "\<exists>st3. seats ?m3 k = Some st3"
    using unassign_device_keeps_keys [OF performed(2), of d] performed(2)
    by (cases "truthy (seat_id dev)") simp_all
  then obtain st3 where st3: "seats ?m3 k = Some st3" by blast
  have "\<exists>dev3. devices ?m3 d = Some dev3"
    using unassign_device_clears [OF performed(1)] performed(1)
    by (cases "truthy (seat_id dev)") auto
  then obtain dev3 where dev3: "devices ?m3 d = Some dev3" by blast
  let ?m6 = "let m4 = update_device ?m3 d (\<lambda>x. x\<lparr>seat_id := Some k\<rparr>);
                 m5 = (if has_capability dev Cap_POINTER
                       then update_seat m4 k (add_pointer_device d) else m4)
             in if has_capability dev Cap_KEYBOARD
                then update_seat m5 k (add_keyboard_device d) else m5"
  let ?st6 = "st3\<lparr>pointer_devices := (if has_capability dev Cap_POINTER
                                        then insert d (pointer_devices st3)
                                        else pointer_devices st3),
                  keyboard_devices := (if has_capability dev Cap_KEYBOARD
                                         then insert d (keyboard_devices st3)
                                         else keyboard_devices st3)\<rparr>"
  have d6: "devices ?m6 = (devices ?m3)(d \<mapsto> dev3\<lparr>seat_id := Some k\<rparr>)"
    using dev3 by (simp add: Let_def)
  have s6: "seats ?m6 = (seats ?m3)(k \<mapsto> ?st6)"
    using st3 by (auto simp add: Let_def add_pointer_device_def add_keyboard_device_def fun_eq_iff)
  have m6: "members ?st6 \<subseteq> insert d (members st3)"
    by (auto simp add: members_def)
  have "assignments_agree ?m6"
    by (rule agree_attach [OF a3 u3 st3 d6 _ s6 m6]) simp
  then show ?thesis
    by (simp add: assign_device_performed [OF performed])
qed (simp_all add: assms)


lemma agree_perform:
  assumes "assignments_agree m" and "admissible m op"
  shows "assignments_agree (snd (perform m op))"
proof (cases op)
  case (Create_seat uuid name)
  then show ?thesis
    using agree_create_seat [OF assms(1), of uuid name] assms(2)
    by (cases "create_seat m uuid name") simp
next
  case (Destroy_seat k)
  then show ?thesis using assms by (simp add: agree_destroy_seat)
next
  case (Set_seat_state k st)
  then show ?thesis
    using assms
    by (simp add: set_seat_state_def get_seat_def Let_def agree_update_seat members_def
             split: option.splits)
next
  case (Register_device dev)
  then show ?thesis using assms by (simp add: agree_register_device)
next
  case (Unregister_device d)
  then show ?thesis using assms by (simp add: agree_unregister_device)
next
  case (Assign_device d k force)
  then show ?thesis using assms by (simp add: agree_assign_device)
next
  case (Unassign_device d)
  then show ?thesis using assms by (simp add: agree_unassign_device)
next
  case (Auto_assign_device d)
  then show ?thesis
    using agree_assign_device [OF assms(1), of d "default_seat_id m" False]
    by (cases "assign_device m d (default_seat_id m) False")
       (auto simp add: auto_assign_device_def split: sum.splits)
next
  case (Route_pointer_motion d dx dy)
  then show ?thesis
    using assms
    by (simp add: route_pointer_motion_def Let_def agree_update_seat members_def move_by_def
             split: option.splits prod.splits)
next
  case (Route_pointer_button d b p)
  then show ?thesis
    using assms by (simp add: route_pointer_button_def split: option.splits prod.splits)
next
  case (Route_keyboard_key d b p)
  then show ?thesis
    using assms by (simp add: route_keyboard_key_def split: option.splits prod.splits)
next
  case (Request_pointer_grab k c md sf now)
  then show ?thesis
    using assms
    by (simp add: request_pointer_grab_def get_seat_def Let_def agree_update_seat members_def
          set_pointer_grab_def split: option.splits)
next
  case (Release_pointer_grab k)
  then show ?thesis
    using assms
    by (simp add: release_pointer_grab_def get_seat_def Let_def agree_update_seat members_def
          seat_release_pointer_grab_def split: option.splits)
next
  case (Set_display_bounds b)
  then show ?thesis using assms by (simp add: set_display_bounds_def assignments_agree_def)
next
  case (Add_event_listener l)
  then show ?thesis using assms by (simp add: add_event_listener_def assignments_agree_def)
next
  case (Remove_event_listener l)
  then show ?thesis using assms by (simp add: remove_event_listener_def assignments_agree_def)
qed

lemma agree_run:
  "assignments_agree m \<Longrightarrow> admissible_run m ops \<Longrightarrow> assignments_agree (run m ops)"
  by (induction ops arbitrary: m) (simp_all add: agree_perform)

lemma agree_seat_manager_init:
  "uuid \<noteq> [] \<Longrightarrow> assignments_agree (seat_manager_init uuid name)"
  by (simp add: assignments_agree_def seat_manager_init_seats new_seat_def members_def)

text \<open>
  As long as \<^verbatim>\<open>register_device\<close> is never given an identifier that a seat holds, no
  identifier is in the pointer sets of two seats, nor in the keyboard sets of two seats.
\<close>

lemma uniqueness_without_reregistration:
  assumes "uuid \<noteq> []" and "admissible_run (seat_manager_init uuid name) ops"
    and "seats (run (seat_manager_init uuid name) ops) k1 = Some s1"
    and "seats (run (seat_manager_init uuid name) ops) k2 = Some s2"
    and "k1 \<noteq> k2"
  shows "pointer_devices s1 \<inter> pointer_devices s2 = {}
         \<and> keyboard_devices s1 \<inter> keyboard_devices s2 = {}"
proof -
  let ?m = "run (seat_manager_init uuid name) ops"
  have ag: "assignments_agree ?m"
    using assms(1,2) by (simp add: agree_run agree_seat_manager_init)
  have "members s1 \<inter> members s2 = {}"
  proof (rule ccontr)
    assume "members s1 \<inter> members s2 \<noteq> {}"
    then obtain d where d: "d \<in> members s1" "d \<in> members s2" by blast
    from agree_member [OF ag assms(3) d(1)] agree_member [OF ag assms(4) d(2)] assms(5)
    show False by auto
  qed
  then show ?thesis by (auto simp add: members_def)
qed

subsection \<open>Re-registration of an assigned device\<close>

lemma assign_device_unassigned:
  assumes "devices m d = Some dev" and "\<not> truthy (seat_id dev)" and "seats m k = Some st"
  shows "fst (assign_device m d k force) = Inr ()"
    and "devices (snd (assign_device m d k force)) = (devices m)(d \<mapsto> dev\<lparr>seat_id := Some k\<rparr>)"
    and "seats (snd (assign_device m d k force)) =
           (seats m)(k \<mapsto> st
              \<lparr>pointer_devices := (if Cap_POINTER \<in> capabilities dev
                                    then insert d (pointer_devices st) else pointer_devices st),
               keyboard_devices := (if Cap_KEYBOARD \<in> capabilities dev
                                     then insert d (keyboard_devices st)
                                     else keyboard_devices st)\<rparr>)"
proof -
  have n: "\<not> (truthy (seat_id dev) \<and> \<not> force)" using assms(2) by simp
  note p = assign_device_performed [OF assms(1) assms(3) n]
  show "fst (assign_device m d k force) = Inr ()" by (simp add: p)
  show "devices (snd (assign_device m d k force)) = (devices m)(d \<mapsto> dev\<lparr>seat_id := Some k\<rparr>)"
    using assms by (simp add: p Let_def)
  show "seats (snd (assign_device m d k force)) =
           (seats m)(k \<mapsto> st
              \<lparr>pointer_devices := (if Cap_POINTER \<in> capabilities dev
                                    then insert d (pointer_devices st) else pointer_devices st),
               keyboard_devices := (if Cap_KEYBOARD \<in> capabilities dev
                                     then insert d (keyboard_devices st)
                                     else keyboard_devices st)\<rparr>)"
    using assms
    by (auto simp add: p Let_def has_capability_def add_pointer_device_def
          add_keyboard_device_def fun_eq_iff)
qed

lemma register_device_maps [simp]:
  "devices (register_device m dev) = (devices m)(id_d dev \<mapsto> dev)"
  "seats (register_device m dev) = seats m"
  by (simp_all add: register_device_def)

lemma create_seat_maps [simp]:
  "devices (snd (create_seat m uuid name)) = devices m"
  "seats (snd (create_seat m uuid name)) = (seats m)(uuid \<mapsto> new_seat uuid name)"
  by (simp_all add: create_seat_def Let_def new_seat_def)

text \<open>
  Claim C1 at a failing input. Register a pointer device, assign it to the default seat,
  register a second device object with the same identifier (its \<^verbatim>\<open>seat_id\<close> is
  \<^verbatim>\<open>None\<close>), and assign the identifier to the seat ``aux'' without \<^verbatim>\<open>force\<close>. The
  last call succeeds, and the identifier is then in the pointer sets of both seats.
\<close>

theorem reregistration_breaks_uniqueness:
  "fst (perform
          (run (seat_manager_init ''uuid-seat0'' ''seat0'')
             [Create_seat ''uuid-aux'' ''aux'',
              Register_device example_mouse,
              Assign_device ''mouse1'' ''uuid-seat0'' False,
              Register_device example_mouse])
          (Assign_device ''mouse1'' ''uuid-aux'' False)) = Inr RNone
   \<and> map_option pointer_devices (seats example_reregistered ''uuid-seat0'') = Some {''mouse1''}
   \<and> map_option pointer_devices (seats example_reregistered ''uuid-aux'') = Some {''mouse1''}"
proof -
  let ?m1 = "snd (create_seat (seat_manager_init ''uuid-seat0'' ''seat0'') ''uuid-aux'' ''aux'')"
  let ?m2 = "register_device ?m1 example_mouse"
  let ?m3 = "snd (assign_device ?m2 ''mouse1'' ''uuid-seat0'' False)"
  let ?m4 = "register_device ?m3 example_mouse"
  let ?m5 = "snd (assign_device ?m4 ''mouse1'' ''uuid-aux'' False)"
  let ?s0 = "new_seat ''uuid-seat0'' ''seat0''"
  let ?sa = "new_seat ''uuid-aux'' ''aux''"
  have id: "id_d example_mouse = ''mouse1''" and un: "\<not> truthy (seat_id example_mouse)"
    and cap: "Cap_POINTER \<in> capabilities example_mouse"
      "Cap_KEYBOARD \<notin> capabilities example_mouse"
    by (simp_all add: example_mouse_def)
  have d2: "devices ?m2 ''mouse1'' = Some example_mouse" by (simp add: id)
  have s2: "seats ?m2 ''uuid-seat0'' = Some ?s0" by (simp add: seat_manager_init_seats)
  have s3: "seats ?m3 = (seats ?m2)(''uuid-seat0'' \<mapsto> ?s0\<lparr>pointer_devices := {''mouse1''}\<rparr>)"
    using assign_device_unassigned(3) [OF d2 un s2, of False]
    by (simp add: cap new_seat_def)
  have d4: "devices ?m4 ''mouse1'' = Some example_mouse" by (simp add: id)
  have s4: "seats ?m4 ''uuid-aux'' = Some ?sa" by (simp add: s3)
  have r5: "fst (assign_device ?m4 ''mouse1'' ''uuid-aux'' False) = Inr ()"
    by (rule assign_device_unassigned(1) [OF d4 un s4])
  have s5: "seats ?m5 = (seats ?m4)(''uuid-aux'' \<mapsto> ?sa\<lparr>pointer_devices := {''mouse1''}\<rparr>)"
    using assign_device_unassigned(3) [OF d4 un s4, of False]
    by (simp add: cap new_seat_def)
  have e: "example_reregistered = ?m5"
    by (simp add: example_reregistered_def split: prod.splits)
  have a: "seats ?m5 ''uuid-seat0'' = Some (?s0\<lparr>pointer_devices := {''mouse1''}\<rparr>)"
    by (simp add: s5 s3)
  have b: "seats ?m5 ''uuid-aux'' = Some (?sa\<lparr>pointer_devices := {''mouse1''}\<rparr>)"
    by (simp add: s5)
  have e4: "run (seat_manager_init ''uuid-seat0'' ''seat0'')
              [Create_seat ''uuid-aux'' ''aux'',
               Register_device example_mouse,
               Assign_device ''mouse1'' ''uuid-seat0'' False,
               Register_device example_mouse] = ?m4"
    by (simp add: split: prod.splits)
  have "fst (perform ?m4 (Assign_device ''mouse1'' ''uuid-aux'' False)) = Inr RNone"
    using r5 by (cases "assign_device ?m4 ''mouse1'' ''uuid-aux'' False")
                (simp add: returning_def)
  then show ?thesis
    unfolding e e4 using a b by simp
qed

subsection \<open>Further concrete instances\<close>

theorem route_pointer_motion_clamps_witness:
  "devices example_assigned ''mouse1'' = Some (example_mouse\<lparr>seat_id := Some ''uuid-seat0''\<rparr>)
   \<and> seats example_assigned ''uuid-seat0''
       = Some ((new_seat ''uuid-seat0'' ''seat0'')\<lparr>pointer_devices := {''mouse1''}\<rparr>)
   \<and> cursor_position (snd (route_pointer_motion example_assigned ''mouse1'' 5000 5000))
        ''uuid-seat0'' = Some \<lparr>pos_x = 1919, pos_y = 1079\<rparr>
   \<and> cursor_position
        (snd (route_pointer_motion
                (snd (route_pointer_motion example_assigned ''mouse1'' 5000 5000))
                ''mouse1'' 5000 5000))
        ''uuid-seat0'' = Some \<lparr>pos_x = 1919, pos_y = 1079\<rparr>"
proof -
  let ?st = "(new_seat ''uuid-seat0'' ''seat0'')\<lparr>pointer_devices := {''mouse1''}\<rparr>"
  have d: "devices example_assigned ''mouse1''
             = Some (example_mouse\<lparr>seat_id := Some ''uuid-seat0''\<rparr>)"
    by (simp add: example_assigned_devices)
  have i: "seat_id (example_mouse\<lparr>seat_id := Some ''uuid-seat0''\<rparr>) = Some ''uuid-seat0''"
    by simp
  have n: "''uuid-seat0'' \<noteq> []" by simp
  have s: "seats example_assigned ''uuid-seat0'' = Some ?st"
    by (simp add: example_assigned_seats)
  have a: "state ?st = ACTIVE" by (simp add: new_seat_def)
  have p: "position (cursor ?st) = \<lparr>pos_x = 0, pos_y = 0\<rparr>" by (simp add: new_seat_def)
  have b: "clamp_min_x (display_bounds example_assigned) = 0"
    "clamp_max_x (display_bounds example_assigned) = 1919"
    "clamp_min_y (display_bounds example_assigned) = 0"
    "clamp_max_y (display_bounds example_assigned) = 1079"
    by (simp_all add: example_assigned_bounds default_display_bounds_def clamp_min_x_def
          clamp_max_x_def clamp_min_y_def clamp_max_y_def)
  from route_pointer_motion_clamps [OF d i n s a, of 5000 5000]
  obtain q q2 where
    q: "cursor_position (snd (route_pointer_motion example_assigned ''mouse1'' 5000 5000))
          ''uuid-seat0'' = Some q"
    and qe: "q = clamp (move (position (cursor ?st)) 5000 5000) 0 0 1919 1079"
    and q2: "cursor_position
               (snd (route_pointer_motion
                       (snd (route_pointer_motion example_assigned ''mouse1'' 5000 5000))
                       ''mouse1'' 5000 5000)) ''uuid-seat0'' = Some q2"
    and x: "pos_x q2 = pos_x q" and y: "pos_y q2 = pos_y q"
    unfolding b p by auto
  have qv: "q = \<lparr>pos_x = 1919, pos_y = 1079\<rparr>"
    by (simp add: qe clamp_def move_def new_seat_def)
  have "q2 = q" using x y by simp
  with d s q q2 qv show ?thesis by simp
qed

end
